theory Spec2Isabelle
  imports Main "HOL-Library.Word"
begin

section \<open>EFI variable events of the TPM event log (src/efi-variable.c)\<close>

text \<open>
  The C file rehashes one EFI_VARIABLE event of a TCG event log. Its functions are embedded
  one by one, under their own names (a leading \<open>__\<close> is dropped, since an Isabelle name
  cannot start with an underscore).

  Conventions of the embedding:
  \<^item> a byte is an \<open>8 word\<close>; a pair (pointer, length) of the C code is the list of the
    bytes it denotes;
  \<^item> a C string is the list of its chars before the terminating NUL, so \<open>strlen\<close> is
    \<open>length\<close> and \<open>strcmp(a, b) == 0\<close> is \<open>a = b\<close>;
  \<^item> a pointer that may be \<open>NULL\<close> is an \<open>option\<close>; the pointer returned by
    \<open>efi_variable_authority_get_record\<close>, which may also be the magic value
    \<open>EFI_BSA_NOT_FOUND\<close>, is a three-way datatype;
  \<^item> \<open>fatal()\<close> ends the process: a function that may call it returns an \<open>outcome\<close>,
    either \<open>Fatal\<close> with the message or \<open>Return\<close> with the value handed to the caller;
  \<^item> the messages given to \<open>debug\<close>, \<open>infomsg\<close> and \<open>hexdump\<close>, and the contents of
    the static buffer \<open>varname\<close>, are the state (\<open>world\<close>) passed through every function
    that touches them;
  \<^item> a length is a \<open>nat\<close>. The wrap-around is written out where the C code stores a
    length in an \<open>unsigned int\<close> of its own (\<open>var_len\<close>, \<open>name_len\<close>), and the two
    length fields of the wire are \<open>64 word\<close>; a theorem that needs a length to fit states
    the bound;
  \<^item> \<open>malloc\<close> and \<open>buffer_free\<close> are not modelled: allocation succeeds and releasing
    a buffer has no effect on any value computed here.
\<close>

type_synonym byte = "8 word"
type_synonym bytes = "byte list"

subsection \<open>Types of the headers (eventlog.h, digest.h, bufparser.h)\<close>

text \<open>
  The headers are not part of the source under study. Of each struct only the fields that
  efi-variable.c reads or writes are kept.
\<close>

record tpm_algo_info =
  openssl_name :: string

record tpm_evdigest =
  md_algo :: string
  md_data :: bytes

text \<open>
  Modelled from the spec: the event type codes are declared in eventlog.h. The code only
  tests an event type for equality with \<open>TPM2_EFI_VARIABLE_AUTHORITY\<close>; every other
  code is kept as an opaque tag.
\<close>

datatype tpm_event_type = TPM2_EFI_VARIABLE_AUTHORITY | TPM2_EVENT_OTHER nat

text \<open>
  \<open>event_data\<close> stands for the pair \<open>event_data\<close>, \<open>event_size\<close>: the raw bytes of
  the event as the log stores them. \<open>pcr_values\<close> holds the digests the log recorded for the
  event, one per algorithm.
\<close>

record tpm_event =
  event_type :: tpm_event_type
  pcr_values :: "tpm_evdigest list"
  event_data :: bytes

text \<open>
  \<open>struct efi_variable_event\<close>: \<open>data\<close> stands for the pair \<open>data\<close>, \<open>len\<close>;
  \<open>variable_guid\<close> is an array of 16 bytes.
\<close>

record efi_variable_event =
  variable_guid :: bytes
  variable_name :: string
  data :: bytes

record 'img tpm_event_log_rehash_ctx =
  algo :: tpm_algo_info
  next_stage_img :: "'img option"

text \<open>
  Modelled from the spec: \<open>buffer_t\<close> of bufparser.h, a byte array of capacity
  \<open>bsize\<close> with a read and a write position. \<open>written\<close> is the part of the array
  before the write position, so the write position is its length.
\<close>

record buffer =
  rpos :: nat
  bsize :: nat
  written :: bytes

datatype buffer_ptr = NULL | EFI_BSA_NOT_FOUND | Ptr buffer

datatype 'a outcome = Fatal string | Return 'a

datatype message = Debug string | Info string | Hexdump bytes

record world =
  varname :: string
  messages :: "message list"

subsection \<open>Collaborators\<close>

text \<open>
  Modelled from the spec: the functions of the other compilation units that efi-variable.c
  calls are parameters of the model, one field each, named as in the C code. They are the
  capabilities the specification lists: \<open>digest\<close>, \<open>read_live_variable\<close>,
  \<open>extract_signer\<close>, \<open>locate_authority_record\<close>, \<open>shim_alias\<close> and
  \<open>decode_uuid_text\<close>. The two text conversions behind \<open>buffer_get_utf16le\<close> and
  \<open>buffer_put_utf16le\<close> (UTF-16LE on the wire, native text in memory) are parameters as
  well: what the native text of a name is depends on them. \<open>opt_debug\<close> is the global
  debug level.
\<close>

record ('img, 'cert) collaborators =
  digest_compute :: "tpm_algo_info \<Rightarrow> bytes \<Rightarrow> tpm_evdigest"
  runtime_read_efi_variable :: "string \<Rightarrow> buffer option"
  authenticode_get_signer :: "'img \<Rightarrow> 'cert option"
  parsed_cert_subject :: "'cert \<Rightarrow> string"
  efi_application_locate_authority_record :: "string \<Rightarrow> 'cert \<Rightarrow> buffer option"
  shim_variable_get_full_rtname :: "string \<Rightarrow> string option"
  tpm_event_decode_uuid :: "bytes \<Rightarrow> string"
  utf16le_to_native :: "bytes \<Rightarrow> string option"
  native_to_utf16le :: "string \<Rightarrow> bytes option"
  opt_debug :: nat

subsection \<open>Helpers of util.h, digest.h, eventlog.h and bufparser.h\<close>

text \<open>Modelled from the spec: \<open>debug\<close>, \<open>infomsg\<close> and \<open>hexdump\<close> (util.h) report a
  diagnostic; the model records the call.\<close>

definition debug :: "string \<Rightarrow> world \<Rightarrow> world" where
  "debug msg w = w\<lparr>messages := messages w @ [Debug msg]\<rparr>"

definition infomsg :: "string \<Rightarrow> world \<Rightarrow> world" where
  "infomsg msg w = w\<lparr>messages := messages w @ [Info msg]\<rparr>"

definition hexdump :: "bytes \<Rightarrow> world \<Rightarrow> world" where
  "hexdump bs w = w\<lparr>messages := messages w @ [Hexdump bs]\<rparr>"

text \<open>Modelled from the spec: \<open>recorded_digest(event, algorithm)\<close>, the digest the log
  recorded for the event under the named algorithm, or absent.\<close>

definition tpm_event_get_digest :: "tpm_event \<Rightarrow> string \<Rightarrow> tpm_evdigest option" where
  "tpm_event_get_digest ev name = find (\<lambda>d. md_algo d = name) (pcr_values ev)"

text \<open>Modelled from the spec: \<open>digest_equal\<close> (digest.h) compares two digest values.\<close>

definition digest_equal :: "tpm_evdigest \<Rightarrow> tpm_evdigest \<Rightarrow> bool" where
  "digest_equal a b = (a = b)"

text \<open>C's \<open>snprintf(buf, n, ...)\<close> stores at most \<open>n - 1\<close> chars of the formatted text.\<close>

definition snprintf :: "nat \<Rightarrow> string \<Rightarrow> string" where
  "snprintf n s = take (n - 1) s"

text \<open>A C string is cut at its first NUL.\<close>

definition c_str :: "string \<Rightarrow> string" where
  "c_str s = takeWhile (\<lambda>c. c \<noteq> CHR 0x00) s"

text \<open>Little-endian byte strings: the \<open>n\<close> low bytes of a number, and the number a byte
  string denotes.\<close>

fun le_bytes :: "nat \<Rightarrow> nat \<Rightarrow> bytes" where
  "le_bytes 0 v = []"
| "le_bytes (Suc n) v = of_nat (v mod 256) # le_bytes n (v div 256)"

fun le_value :: "bytes \<Rightarrow> nat" where
  "le_value [] = 0"
| "le_value (b # bs) = unat b + 256 * le_value bs"

text \<open>
  Modelled from the spec: the buffer functions of bufparser.h. \<open>buffer_put\<close> appends at the
  write position and fails when the capacity does not suffice; \<open>buffer_get\<close> takes bytes
  at the read position and fails when fewer are left; the \<open>u64le\<close> variants move an
  unsigned 64-bit number as 8 little-endian bytes; the \<open>utf16le\<close> variants move a name,
  UTF-16LE in the buffer and native text in memory, \<open>buffer_get_utf16le\<close> taking the
  number of 16-bit code units and \<open>buffer_put_utf16le\<close> reporting the number of bytes it
  produced (an \<open>unsigned int\<close>).
\<close>

definition buffer_alloc_write :: "nat \<Rightarrow> buffer" where
  "buffer_alloc_write n = \<lparr>rpos = 0, bsize = n, written = []\<rparr>"

definition buffer_read_pointer :: "buffer \<Rightarrow> bytes" where
  "buffer_read_pointer bp = drop (rpos bp) (written bp)"

definition buffer_available :: "buffer \<Rightarrow> nat" where
  "buffer_available bp = length (written bp) - rpos bp"

definition buffer_put :: "buffer \<Rightarrow> bytes \<Rightarrow> buffer option" where
  "buffer_put bp bs =
     (if bsize bp - length (written bp) < length bs then None
      else Some (bp\<lparr>written := written bp @ bs\<rparr>))"

definition buffer_get :: "buffer \<Rightarrow> nat \<Rightarrow> (bytes \<times> buffer) option" where
  "buffer_get bp n =
     (if buffer_available bp < n then None
      else Some (take n (buffer_read_pointer bp), bp\<lparr>rpos := rpos bp + n\<rparr>))"

definition buffer_put_u64le :: "buffer \<Rightarrow> 64 word \<Rightarrow> buffer option" where
  "buffer_put_u64le bp v = buffer_put bp (le_bytes 8 (unat v))"

definition buffer_get_u64le :: "buffer \<Rightarrow> (64 word \<times> buffer) option" where
  "buffer_get_u64le bp =
     (case buffer_get bp 8 of
        None \<Rightarrow> None
      | Some (bs, bp') \<Rightarrow> Some (of_nat (le_value bs), bp'))"

definition buffer_put_utf16le ::
  "('img, 'cert) collaborators \<Rightarrow> buffer \<Rightarrow> string \<Rightarrow> (buffer \<times> nat) option" where
  "buffer_put_utf16le env bp utf8 =
     (case native_to_utf16le env utf8 of
        None \<Rightarrow> None
      | Some utf16 \<Rightarrow>
          (case buffer_put bp utf16 of
             None \<Rightarrow> None
           | Some bp' \<Rightarrow> Some (bp', length utf16 mod 2 ^ 32)))"

definition buffer_get_utf16le ::
  "('img, 'cert) collaborators \<Rightarrow> buffer \<Rightarrow> nat \<Rightarrow> (string \<times> buffer) option" where
  "buffer_get_utf16le env bp len =
     (case buffer_get bp (2 * len) of
        None \<Rightarrow> None
      | Some (utf16, bp') \<Rightarrow>
          (case utf16le_to_native env utf16 of
             None \<Rightarrow> None
           | Some utf8 \<Rightarrow> Some (c_str utf8, bp')))"

subsection \<open>The functions of efi-variable.c\<close>

text \<open>
  \<open>__tpm_event_marshal_efi_variable\<close>: GUID, name length, data length, name in UTF-16LE,
  data. \<open>var_len\<close> and \<open>name_len\<close> are \<open>unsigned int\<close>: their wrap-around is written
  out. \<open>None\<close> is the C function's \<open>false\<close>.
\<close>

definition tpm_event_marshal_efi_variable ::
  "('img, 'cert) collaborators \<Rightarrow> buffer \<Rightarrow> efi_variable_event \<Rightarrow> bytes \<Rightarrow> nat \<Rightarrow> buffer option" where
  "tpm_event_marshal_efi_variable env bp parsed raw_data raw_data_len =
     (case buffer_put bp (variable_guid parsed) of
        None \<Rightarrow> None
      | Some bp1 \<Rightarrow>
          (let var_len = length (variable_name parsed) mod 2 ^ 32 in
           case buffer_put_u64le bp1 (of_nat var_len) of
             None \<Rightarrow> None
           | Some bp2 \<Rightarrow>
               (case buffer_put_u64le bp2 (of_nat raw_data_len) of
                  None \<Rightarrow> None
                | Some bp3 \<Rightarrow>
                    (case buffer_put_utf16le env bp3 (variable_name parsed) of
                       None \<Rightarrow> None
                     | Some (bp4, name_len) \<Rightarrow>
                         (case buffer_put bp4 (take raw_data_len raw_data) of
                            None \<Rightarrow> None
                          | Some bp5 \<Rightarrow>
                              if name_len \<noteq> (2 * var_len) mod 2 ^ 32 then None
                              else Some bp5)))))"

text \<open>\<open>__tpm_event_efi_variable_build_event\<close>: a buffer of exactly the size of the
  layout, then the marshaling; \<open>None\<close> is the C function's \<open>NULL\<close>.\<close>

definition tpm_event_efi_variable_build_event ::
  "('img, 'cert) collaborators \<Rightarrow> efi_variable_event \<Rightarrow> bytes \<Rightarrow> nat \<Rightarrow> world
     \<Rightarrow> buffer option \<times> world" where
  "tpm_event_efi_variable_build_event env parsed raw_data raw_data_len w =
     (let bp = buffer_alloc_write (16 + 8 + 8 + 2 * length (variable_name parsed) + raw_data_len) in
      case tpm_event_marshal_efi_variable env bp parsed raw_data raw_data_len of
        None \<Rightarrow>
          (None, debug (''Failed to marshal EFI variable '' @ variable_name parsed @ ''\<newline>'') w)
      | Some bp' \<Rightarrow> (Some bp', w))"

definition HASH_STRATEGY_EVENT :: int where
  "HASH_STRATEGY_EVENT = 0"

definition HASH_STRATEGY_DATA :: int where
  "HASH_STRATEGY_DATA = 1"

definition ptr_of :: "buffer option \<Rightarrow> buffer_ptr" where
  "ptr_of r = (case r of None \<Rightarrow> NULL | Some b \<Rightarrow> Ptr b)"

text \<open>\<open>efi_variable_authority_get_record\<close>. \<open>db_name\<close> starts as \<open>NULL\<close> (\<open>None\<close>);
  the last branch of the name test returns at once.\<close>

definition efi_variable_authority_get_record ::
  "('img, 'cert) collaborators \<Rightarrow> efi_variable_event \<Rightarrow> string \<Rightarrow> 'img tpm_event_log_rehash_ctx
     \<Rightarrow> world \<Rightarrow> buffer_ptr \<times> world" where
  "efi_variable_authority_get_record env parsed var_name ctx w =
     (let var_short_name = variable_name parsed;
          db_name =
            (if var_short_name = ''Shim'' then Some ''shim-vendor-cert''
             else if var_short_name = ''db'' then Some ''db''
             else if var_short_name = ''MokListRT'' then Some ''MokList''
             else None)
      in case db_name of
           None \<Rightarrow> (ptr_of (runtime_read_efi_variable env var_name), w)
         | Some db \<Rightarrow>
             (case next_stage_img ctx of
                None \<Rightarrow>
                  (EFI_BSA_NOT_FOUND,
                   infomsg ''Unable to verify signature of a boot service; probably a driver residing in ROM.\<newline>'' w)
              | Some img \<Rightarrow>
                  (case authenticode_get_signer env img of
                     None \<Rightarrow> (NULL, w)
                   | Some signer \<Rightarrow>
                       (ptr_of (efi_application_locate_authority_record env db signer),
                        debug (''Next stage application was signed by ''
                                 @ parsed_cert_subject env signer @ ''\<newline>'') w))))"

text \<open>\<open>__tpm_event_efi_variable_detect_hash_strategy\<close>: \<open>-1\<close> when the event has no digest
  for the algorithm, else one of the two strategies.\<close>

definition tpm_event_efi_variable_detect_hash_strategy ::
  "('img, 'cert) collaborators \<Rightarrow> tpm_event \<Rightarrow> efi_variable_event \<Rightarrow> tpm_algo_info \<Rightarrow> world
     \<Rightarrow> int \<times> world" where
  "tpm_event_efi_variable_detect_hash_strategy env ev parsed alg w =
     (case tpm_event_get_digest ev (openssl_name alg) of
        None \<Rightarrow>
          (- 1, debug (''Event does not provide a digest for algorithm ''
                         @ openssl_name alg @ ''\<newline>'') w)
      | Some old_md \<Rightarrow>
          (let md = digest_compute env alg (event_data ev) in
           if digest_equal old_md md
           then (HASH_STRATEGY_EVENT, debug ''  Firmware hashed entire event data\<newline>'' w)
           else
             (let md = digest_compute env alg (data parsed) in
              if digest_equal old_md md
              then (HASH_STRATEGY_DATA, debug ''  Firmware hashed variable data\<newline>'' w)
              else (HASH_STRATEGY_DATA, debug ''  I'm lost.\<newline>'' w))))"

text \<open>\<open>tpm_efi_variable_event_extract_full_varname\<close>: the shim loader's name of the
  variable, or name and GUID text printed into the static buffer \<open>varname\<close> of 256 chars.
  The C function returns a pointer, here the string it points to at the return; it never
  returns \<open>NULL\<close>.\<close>

definition tpm_efi_variable_event_extract_full_varname ::
  "('img, 'cert) collaborators \<Rightarrow> efi_variable_event \<Rightarrow> world \<Rightarrow> string option \<times> world" where
  "tpm_efi_variable_event_extract_full_varname env parsed w =
     (case shim_variable_get_full_rtname env (variable_name parsed) of
        Some shim_rtname \<Rightarrow> (Some shim_rtname, w)
      | None \<Rightarrow>
          (let w' = w\<lparr>varname := snprintf 256 (variable_name parsed @ ''-''
                                  @ tpm_event_decode_uuid env (variable_guid parsed))\<rparr>
           in (Some (varname w'), w')))"

text \<open>\<open>__tpm_event_efi_variable_rehash\<close>, from the test \<open>file_data == NULL\<close> to the
  label \<open>out\<close>: the content is hashed as it is, or marshaled into an event first.
  \<open>file_data\<close> is \<open>NULL\<close> (\<open>None\<close>) or a buffer here: the magic pointer has been
  dealt with before. After \<open>fatal\<close> the C code reads \<open>event_data\<close>, which is
  \<open>NULL\<close> there: \<open>fatal\<close> does not return.\<close>

definition tpm_event_efi_variable_rehash_file_data ::
  "('img, 'cert) collaborators \<Rightarrow> efi_variable_event \<Rightarrow> tpm_algo_info \<Rightarrow> string \<Rightarrow> int
     \<Rightarrow> buffer option \<Rightarrow> world \<Rightarrow> tpm_evdigest option outcome \<times> world" where
  "tpm_event_efi_variable_rehash_file_data env parsed alg var_name hash_strategy file_data w =
     (case file_data of
        None \<Rightarrow> (Return None, w)
      | Some fd \<Rightarrow>
          if hash_strategy = HASH_STRATEGY_EVENT then
            (case tpm_event_efi_variable_build_event env parsed
                    (buffer_read_pointer fd) (buffer_available fd) w of
               (None, w1) \<Rightarrow> (Fatal ''Unable to re-marshal EFI variable for hashing\<newline>'', w1)
             | (Some event_buf, w1) \<Rightarrow>
                 (let w2 =
                        (if opt_debug env > 1
                         then hexdump (take (buffer_available event_buf) (buffer_read_pointer event_buf))
                                (debug (''  Remarshaled event for EFI variable '' @ var_name
                                          @ '':\<newline>'') w1)
                         else w1)
                  in (Return (Some (digest_compute env alg
                                (take (buffer_available event_buf) (buffer_read_pointer event_buf)))),
                      w2)))
          else
            (Return (Some (digest_compute env alg
                       (take (buffer_available fd) (buffer_read_pointer fd)))), w))"

text \<open>\<open>__tpm_event_efi_variable_rehash\<close>.\<close>

definition tpm_event_efi_variable_rehash ::
  "('img, 'cert) collaborators \<Rightarrow> tpm_event \<Rightarrow> efi_variable_event \<Rightarrow> 'img tpm_event_log_rehash_ctx
     \<Rightarrow> world \<Rightarrow> tpm_evdigest option outcome \<times> world" where
  "tpm_event_efi_variable_rehash env ev parsed ctx w =
     (let alg = algo ctx in
      case tpm_efi_variable_event_extract_full_varname env parsed w of
        (None, w1) \<Rightarrow>
          (Fatal ''Unable to extract EFI variable name from EFI_VARIABLE event\<newline>'', w1)
      | (Some var_name, w1) \<Rightarrow>
          (case tpm_event_efi_variable_detect_hash_strategy env ev parsed alg w1 of
             (hash_strategy, w2) \<Rightarrow>
               if hash_strategy < 0 then (Return None, w2)
               else if event_type ev = TPM2_EFI_VARIABLE_AUTHORITY then
                 (case efi_variable_authority_get_record env parsed var_name ctx w2 of
                    (EFI_BSA_NOT_FOUND, w3) \<Rightarrow>
                      (Return (tpm_event_get_digest ev (openssl_name alg)), w3)
                  | (NULL, w3) \<Rightarrow>
                      tpm_event_efi_variable_rehash_file_data env parsed alg var_name
                        hash_strategy None w3
                  | (Ptr file_data, w3) \<Rightarrow>
                      tpm_event_efi_variable_rehash_file_data env parsed alg var_name
                        hash_strategy (Some file_data) w3)
               else
                 tpm_event_efi_variable_rehash_file_data env parsed alg var_name hash_strategy
                   (runtime_read_efi_variable env var_name) w2))"

text \<open>\<open>__tpm_event_parse_efi_variable\<close>: the decoded event and the buffer after it, or
  \<open>None\<close> for the C function's \<open>false\<close>. The three function pointers it stores in
  \<open>parsed\<close> are the functions above.\<close>

definition tpm_event_parse_efi_variable ::
  "('img, 'cert) collaborators \<Rightarrow> buffer \<Rightarrow> (efi_variable_event \<times> buffer) option" where
  "tpm_event_parse_efi_variable env bp =
     (case buffer_get bp 16 of
        None \<Rightarrow> None
      | Some (guid, bp1) \<Rightarrow>
          (case buffer_get_u64le bp1 of
             None \<Rightarrow> None
           | Some (name_len, bp2) \<Rightarrow>
               (case buffer_get_u64le bp2 of
                  None \<Rightarrow> None
                | Some (data_len, bp3) \<Rightarrow>
                    (case buffer_get_utf16le env bp3 (unat name_len) of
                       None \<Rightarrow> None
                     | Some (name, bp4) \<Rightarrow>
                         (case buffer_get bp4 (unat data_len) of
                            None \<Rightarrow> None
                          | Some (d, bp5) \<Rightarrow>
                              Some (\<lparr>variable_guid = guid, variable_name = name, data = d\<rparr>,
                                    bp5))))))"

subsection \<open>The wire layout\<close>

text \<open>
  Modelled from the spec: the body of an EFI_VARIABLE event on the wire is the GUID (16
  bytes), the name length in UTF-16 code units and the data length in bytes (8 bytes each,
  unsigned little-endian), the name in UTF-16LE and the data. \<open>read_buffer\<close> is a buffer
  that holds given bytes, all of them still to be read.
\<close>

definition efi_variable_wire :: "bytes \<Rightarrow> nat \<Rightarrow> bytes \<Rightarrow> bytes \<Rightarrow> bytes" where
  "efi_variable_wire guid name_length name_utf16 payload =
     guid @ le_bytes 8 name_length @ le_bytes 8 (length payload) @ name_utf16 @ payload"

definition read_buffer :: "bytes \<Rightarrow> buffer" where
  "read_buffer bs = \<lparr>rpos = 0, bsize = length bs, written = bs\<rparr>"

subsection \<open>An example environment\<close>

text \<open>
  Collaborators and events on which the theorems below are evaluated. The digest is the sum
  of the bytes, 8 bits wide (not a cryptographic digest: two byte strings may share it); the
  native text is UTF-8, for the code points below U+0800; the GUID text has the five groups
  of the usual form, the first three little-endian.
\<close>

definition ex_digest :: "tpm_algo_info \<Rightarrow> bytes \<Rightarrow> tpm_evdigest" where
  "ex_digest alg bs = \<lparr>md_algo = openssl_name alg, md_data = [sum_list bs]\<rparr>"

definition hex_digit :: "nat \<Rightarrow> char" where
  "hex_digit n = ''0123456789abcdef'' ! n"

definition hex_byte :: "byte \<Rightarrow> string" where
  "hex_byte b = [hex_digit (unat b div 16), hex_digit (unat b mod 16)]"

definition ex_decode_uuid :: "bytes \<Rightarrow> string" where
  "ex_decode_uuid g =
     concat (map hex_byte (rev (take 4 g))) @ ''-''
     @ concat (map hex_byte (rev (take 2 (drop 4 g)))) @ ''-''
     @ concat (map hex_byte (rev (take 2 (drop 6 g)))) @ ''-''
     @ concat (map hex_byte (take 2 (drop 8 g))) @ ''-''
     @ concat (map hex_byte (take 6 (drop 10 g)))"

fun ex_native_to_utf16le :: "string \<Rightarrow> bytes option" where
  "ex_native_to_utf16le [] = Some []"
| "ex_native_to_utf16le [c] =
     (if (of_char c :: nat) < 0x80 then Some [of_char c, 0] else None)"
| "ex_native_to_utf16le (c # d # s) =
     (let a = (of_char c :: nat); b = (of_char d :: nat) in
      if a < 0x80 then map_option (\<lambda>r. of_nat a # 0 # r) (ex_native_to_utf16le (d # s))
      else if 0xC0 \<le> a \<and> a < 0xE0 \<and> 0x80 \<le> b \<and> b < 0xC0 then
        map_option (\<lambda>r. of_nat (((a - 0xC0) * 64 + (b - 0x80)) mod 256)
                         # of_nat (((a - 0xC0) * 64 + (b - 0x80)) div 256) # r)
          (ex_native_to_utf16le s)
      else None)"

fun ex_utf16le_to_native :: "bytes \<Rightarrow> string option" where
  "ex_utf16le_to_native [] = Some []"
| "ex_utf16le_to_native [b] = None"
| "ex_utf16le_to_native (lo # hi # r) =
     (let cp = unat lo + 256 * unat hi in
      if cp < 0x80 then map_option (\<lambda>s. char_of cp # s) (ex_utf16le_to_native r)
      else if cp < 0x800 then
        map_option (\<lambda>s. char_of (0xC0 + cp div 64) # char_of (0x80 + cp mod 64) # s)
          (ex_utf16le_to_native r)
      else None)"

definition efi_global_guid :: bytes where
  "efi_global_guid = [0x61, 0xdf, 0xe4, 0x8b, 0xca, 0x93, 0xd2, 0x11,
                      0xaa, 0x0d, 0x00, 0xe0, 0x98, 0x03, 0x2b, 0x8c]"

definition ex_env :: "(bytes, string) collaborators" where
  "ex_env =
     \<lparr>digest_compute = ex_digest,
      runtime_read_efi_variable =
        (\<lambda>name. if name = ''SbatLevel-605dab50-e046-4300-abb6-3dd810dd8b23''
                then Some \<lparr>rpos = 0, bsize = 4, written = [0x73, 0x62, 0x61, 0x74]\<rparr>
                else if name = [CHR 0xC5, CHR 0x81] @ ''-8be4df61-93ca-11d2-aa0d-00e098032b8c''
                then Some \<lparr>rpos = 0, bsize = 1, written = [0x07]\<rparr>
                else None),
      authenticode_get_signer =
        (\<lambda>img. case img of
                  [] \<Rightarrow> None
                | b # _ \<Rightarrow> if b = 0x4D then Some ''CN=Vendor CA'' else Some ''CN=Unknown''),
      parsed_cert_subject = (\<lambda>cert. cert),
      efi_application_locate_authority_record =
        (\<lambda>db cert.
           if cert = ''CN=Vendor CA'' then
             (if db = ''db'' then Some \<lparr>rpos = 0, bsize = 3, written = [0x30, 0x82, 0x03]\<rparr>
              else if db = ''shim-vendor-cert''
                then Some \<lparr>rpos = 0, bsize = 3, written = [0x30, 0x82, 0x04]\<rparr>
              else if db = ''MokList''
                then Some \<lparr>rpos = 0, bsize = 3, written = [0x30, 0x82, 0x05]\<rparr>
              else None)
           else None),
      shim_variable_get_full_rtname =
        (\<lambda>name. if name = ''MokList''
                then Some ''MokListRT-605dab50-e046-4300-abb6-3dd810dd8b23''
                else None),
      tpm_event_decode_uuid = ex_decode_uuid,
      utf16le_to_native = ex_utf16le_to_native,
      native_to_utf16le = ex_native_to_utf16le,
      opt_debug = 0\<rparr>"

definition sha256 :: tpm_algo_info where
  "sha256 = \<lparr>openssl_name = ''sha256''\<rparr>"

definition w0 :: world where
  "w0 = \<lparr>varname = [], messages = []\<rparr>"

definition ex_db_guid :: bytes where
  "ex_db_guid = [0xcb, 0xb2, 0x19, 0xd7, 0x3a, 0x3d, 0x96, 0x45,
                 0xa3, 0xbc, 0xda, 0xd0, 0x0e, 0x67, 0x65, 0x6f]"

definition ex_other_guid :: bytes where
  "ex_other_guid = [0x35, 0, 0, 0, 0, 0, 0, 0, 0, 0, 0, 0, 0, 0, 0, 0]"

definition ex_lstroke :: string where
  "ex_lstroke = [CHR 0xC5, CHR 0x81]"

definition ex_lstroke_wire :: bytes where
  "ex_lstroke_wire = efi_variable_wire efi_global_guid 1 [0x41, 0x01] [1, 2, 3]"

definition ex_parsed :: "bytes \<Rightarrow> string \<Rightarrow> efi_variable_event" where
  "ex_parsed guid name = \<lparr>variable_guid = guid, variable_name = name, data = [1, 2, 3]\<rparr>"

definition ex_wire :: "bytes \<Rightarrow> bytes" where
  "ex_wire guid = efi_variable_wire guid 2 [0x64, 0, 0x62, 0] [1, 2, 3]"

definition ex_event :: "tpm_event_type \<Rightarrow> tpm_evdigest list \<Rightarrow> bytes \<Rightarrow> tpm_event" where
  "ex_event t ds guid = \<lparr>event_type = t, pcr_values = ds, event_data = ex_wire guid\<rparr>"

definition ex_md :: "string \<Rightarrow> byte \<Rightarrow> tpm_evdigest" where
  "ex_md name b = \<lparr>md_algo = name, md_data = [b]\<rparr>"

definition ex_lstroke_event :: tpm_event where
  "ex_lstroke_event =
     \<lparr>event_type = TPM2_EVENT_OTHER 0x80000002, pcr_values = [ex_md ''sha256'' 0x24],
      event_data = ex_lstroke_wire\<rparr>"

definition ex_ctx :: "bytes option \<Rightarrow> bytes tpm_event_log_rehash_ctx" where
  "ex_ctx img = \<lparr>algo = sha256, next_stage_img = img\<rparr>"

section \<open>Properties\<close>

subsection \<open>Auxiliary facts\<close>

text \<open>
  The first component of what the detection, the name resolution and the authority
  resolver return does not depend on the messages reported so far; the name resolution always
  returns a name, so the first \<open>fatal\<close> of the rehash is never reached.
\<close>

lemma take_buffer_available [simp]:
  "take (buffer_available b) (buffer_read_pointer b) = buffer_read_pointer b"
  by (simp add: buffer_available_def buffer_read_pointer_def)

lemma extract_full_varname_Some:
  "\<exists>s w'. tpm_efi_variable_event_extract_full_varname env parsed w = (Some s, w')"
  by (simp add: tpm_efi_variable_event_extract_full_varname_def Let_def split: option.split)

lemma detect_fst_cases:
  "fst (tpm_event_efi_variable_detect_hash_strategy env ev parsed alg w) =
     (case tpm_event_get_digest ev (openssl_name alg) of
        None \<Rightarrow> - 1
      | Some old_md \<Rightarrow>
          if old_md = digest_compute env alg (event_data ev) then HASH_STRATEGY_EVENT
          else HASH_STRATEGY_DATA)"
  by (simp add: tpm_event_efi_variable_detect_hash_strategy_def digest_equal_def Let_def
      split: option.split)

lemma get_record_fst_world:
  "fst (efi_variable_authority_get_record env parsed var_name ctx w)
     = fst (efi_variable_authority_get_record env parsed var_name ctx w')"
  by (simp add: efi_variable_authority_get_record_def Let_def split: option.split)

lemma rehash_unfold:
  assumes "tpm_efi_variable_event_extract_full_varname env parsed w = (Some var_name, w1)"
    and "tpm_event_efi_variable_detect_hash_strategy env ev parsed (algo ctx) w1 = (h, w2)"
  shows "tpm_event_efi_variable_rehash env ev parsed ctx w =
     (if h < 0 then (Return None, w2)
      else if event_type ev = TPM2_EFI_VARIABLE_AUTHORITY then
        (case efi_variable_authority_get_record env parsed var_name ctx w2 of
           (EFI_BSA_NOT_FOUND, w3) \<Rightarrow>
             (Return (tpm_event_get_digest ev (openssl_name (algo ctx))), w3)
         | (NULL, w3) \<Rightarrow>
             tpm_event_efi_variable_rehash_file_data env parsed (algo ctx) var_name h None w3
         | (Ptr file_data, w3) \<Rightarrow>
             tpm_event_efi_variable_rehash_file_data env parsed (algo ctx) var_name h
               (Some file_data) w3)
      else
        tpm_event_efi_variable_rehash_file_data env parsed (algo ctx) var_name h
          (runtime_read_efi_variable env var_name) w2)"
  using assms by (simp add: tpm_event_efi_variable_rehash_def Let_def)

lemma rehash_file_data_None:
  "tpm_event_efi_variable_rehash_file_data env parsed alg var_name h None w = (Return None, w)"
  by (simp add: tpm_event_efi_variable_rehash_file_data_def)

lemma rehash_no_content:
  assumes x: "fst (tpm_efi_variable_event_extract_full_varname env parsed w) = Some var_name"
    and c: "if event_type ev = TPM2_EFI_VARIABLE_AUTHORITY
            then fst (efi_variable_authority_get_record env parsed var_name ctx w) = NULL
            else runtime_read_efi_variable env var_name = None"
  shows "fst (tpm_event_efi_variable_rehash env ev parsed ctx w) = Return None"
proof -
  obtain w1 where ex: "tpm_efi_variable_event_extract_full_varname env parsed w = (Some var_name, w1)"
    using x by (cases "tpm_efi_variable_event_extract_full_varname env parsed w") simp
  obtain h w2 where
    dt: "tpm_event_efi_variable_detect_hash_strategy env ev parsed (algo ctx) w1 = (h, w2)"
    by (cases "tpm_event_efi_variable_detect_hash_strategy env ev parsed (algo ctx) w1")
  show ?thesis
  proof (cases "event_type ev = TPM2_EFI_VARIABLE_AUTHORITY")
    case True
    then have "fst (efi_variable_authority_get_record env parsed var_name ctx w2) = NULL"
      using c get_record_fst_world [of env parsed var_name ctx w2 w] by simp
    then obtain w3 where "efi_variable_authority_get_record env parsed var_name ctx w2 = (NULL, w3)"
      by (cases "efi_variable_authority_get_record env parsed var_name ctx w2") simp
    then show ?thesis
      using True by (simp add: rehash_unfold [OF ex dt] rehash_file_data_None)
  next
    case False
    then have "runtime_read_efi_variable env var_name = None"
      using c by simp
    then show ?thesis
      using False by (simp add: rehash_unfold [OF ex dt] rehash_file_data_None)
  qed
qed

text \<open>
  The authority resolver, case by case.
\<close>

lemma get_record_other:
  assumes "variable_name parsed \<notin> {''Shim'', ''db'', ''MokListRT''}"
  shows "efi_variable_authority_get_record env parsed var_name ctx w
           = (ptr_of (runtime_read_efi_variable env var_name), w)"
  using assms by (simp add: efi_variable_authority_get_record_def)

lemma get_record_no_image:
  assumes "variable_name parsed \<in> {''Shim'', ''db'', ''MokListRT''}"
    and "next_stage_img ctx = None"
  shows "fst (efi_variable_authority_get_record env parsed var_name ctx w) = EFI_BSA_NOT_FOUND"
  using assms by (auto simp add: efi_variable_authority_get_record_def)

lemma get_record_signer:
  assumes "next_stage_img ctx = Some img"
    and "authenticode_get_signer env img = Some signer"
  shows "(variable_name parsed = ''Shim'' \<longrightarrow>
            fst (efi_variable_authority_get_record env parsed var_name ctx w)
              = ptr_of (efi_application_locate_authority_record env ''shim-vendor-cert'' signer))
       \<and> (variable_name parsed = ''db'' \<longrightarrow>
            fst (efi_variable_authority_get_record env parsed var_name ctx w)
              = ptr_of (efi_application_locate_authority_record env ''db'' signer))
       \<and> (variable_name parsed = ''MokListRT'' \<longrightarrow>
            fst (efi_variable_authority_get_record env parsed var_name ctx w)
              = ptr_of (efi_application_locate_authority_record env ''MokList'' signer))"
  using assms by (simp add: efi_variable_authority_get_record_def)

lemma detect_event_type:
  "tpm_event_efi_variable_detect_hash_strategy env (ev\<lparr>event_type := t\<rparr>) parsed alg w
     = tpm_event_efi_variable_detect_hash_strategy env ev parsed alg w"
  by (simp add: tpm_event_efi_variable_detect_hash_strategy_def tpm_event_get_digest_def Let_def
      cong: option.case_cong)

lemma rehash_authority_other_name:
  assumes "variable_name parsed \<notin> {''Shim'', ''db'', ''MokListRT''}"
  shows "tpm_event_efi_variable_rehash env ev parsed ctx w
           = tpm_event_efi_variable_rehash env (ev\<lparr>event_type := TPM2_EVENT_OTHER t\<rparr>) parsed ctx w"
proof -
  obtain s w1 where ex: "tpm_efi_variable_event_extract_full_varname env parsed w = (Some s, w1)"
    using extract_full_varname_Some by blast
  obtain h w2 where
    dt: "tpm_event_efi_variable_detect_hash_strategy env ev parsed (algo ctx) w1 = (h, w2)"
    by (cases "tpm_event_efi_variable_detect_hash_strategy env ev parsed (algo ctx) w1")
  have dt': "tpm_event_efi_variable_detect_hash_strategy env
               (ev\<lparr>event_type := TPM2_EVENT_OTHER t\<rparr>) parsed (algo ctx) w1 = (h, w2)"
    using dt by (simp add: detect_event_type)
  show ?thesis
    using get_record_other [OF assms, of env s ctx w2]
    by (cases "runtime_read_efi_variable env s")
      (simp_all add: rehash_unfold [OF ex dt] rehash_unfold [OF ex dt'] ptr_of_def)
qed

text \<open>
  Little-endian numbers and the buffer: reading at the read position and appending within
  the capacity.
\<close>

lemma length_le_bytes [simp]: "length (le_bytes n v) = n"
  by (induction n arbitrary: v) simp_all

lemma le_value_le_bytes: "le_value (le_bytes n v) = v mod 256 ^ n"
proof (induction n arbitrary: v)
  case 0
  then show ?case by simp
next
  case (Suc n)
  have "unat (of_nat (v mod 256) :: byte) = v mod 256"
    by (simp add: unat_of_nat)
  then show ?case
    using Suc [of "v div 256"] by (simp add: mod_mult2_eq)
qed

lemma buffer_get_at:
  "buffer_get \<lparr>rpos = length pre, bsize = s, written = pre @ xs @ post\<rparr> (length xs)
     = Some (xs, \<lparr>rpos = length pre + length xs, bsize = s, written = pre @ xs @ post\<rparr>)"
  by (simp add: buffer_get_def buffer_available_def buffer_read_pointer_def)

lemma buffer_put_at:
  "length xs + length bs \<le> s \<Longrightarrow>
   buffer_put \<lparr>rpos = r, bsize = s, written = xs\<rparr> bs
     = Some \<lparr>rpos = r, bsize = s, written = xs @ bs\<rparr>"
  by (auto simp add: buffer_put_def)

lemma unat_u64_of_nat: "n < 2 ^ 32 \<Longrightarrow> unat (of_nat n :: 64 word) = n"
  by (simp add: unat_of_nat)

lemma get_u64le_at:
  assumes "n < 2 ^ 32"
  shows "buffer_get_u64le \<lparr>rpos = length pre, bsize = s, written = pre @ le_bytes 8 n @ post\<rparr>
     = Some (of_nat n, \<lparr>rpos = length pre + 8, bsize = s, written = pre @ le_bytes 8 n @ post\<rparr>)"
proof -
  have "n mod 256 ^ 8 = n"
    using assms by simp
  then show ?thesis
    using buffer_get_at [of pre s "le_bytes 8 n" post]
    by (simp add: buffer_get_u64le_def le_value_le_bytes)
qed

text \<open>
  Decoding a wire event gives its fields; marshaling a name whose UTF-16LE text has two bytes
  per char gives the wire event; marshaling any other name fails, and the rehash that needs
  the marshaled event ends in \<open>fatal\<close>.
\<close>

lemma parse_wire:
  assumes g: "length guid = 16"
    and nm: "length name_utf16 = 2 * n"
    and n: "n < 2 ^ 32"
    and m: "length payload < 2 ^ 32"
    and dec: "utf16le_to_native env name_utf16 = Some text"
  defines "wire \<equiv> guid @ le_bytes 8 n @ le_bytes 8 (length payload) @ name_utf16 @ payload"
  shows "tpm_event_parse_efi_variable env \<lparr>rpos = 0, bsize = length wire, written = wire\<rparr>
     = Some (\<lparr>variable_guid = guid, variable_name = c_str text, data = payload\<rparr>,
             \<lparr>rpos = length wire, bsize = length wire, written = wire\<rparr>)"
proof -
  let ?a = "le_bytes 8 n"
  let ?b = "le_bytes 8 (length payload)"
  let ?s = "length wire"
  have s1: "buffer_get \<lparr>rpos = 0, bsize = ?s, written = wire\<rparr> 16
      = Some (guid, \<lparr>rpos = 16, bsize = ?s, written = wire\<rparr>)"
    using buffer_get_at [of "[]" ?s guid "?a @ ?b @ name_utf16 @ payload"] g
    by (simp add: wire_def)
  have s2: "buffer_get_u64le \<lparr>rpos = 16, bsize = ?s, written = wire\<rparr>
      = Some (of_nat n, \<lparr>rpos = 24, bsize = ?s, written = wire\<rparr>)"
    using get_u64le_at [OF n, of guid ?s "?b @ name_utf16 @ payload"] g
    by (simp add: wire_def)
  have s3: "buffer_get_u64le \<lparr>rpos = 24, bsize = ?s, written = wire\<rparr>
      = Some (of_nat (length payload), \<lparr>rpos = 32, bsize = ?s, written = wire\<rparr>)"
    using get_u64le_at [OF m, of "guid @ ?a" ?s "name_utf16 @ payload"] g
    by (simp add: wire_def)
  have s4: "buffer_get \<lparr>rpos = 32, bsize = ?s, written = wire\<rparr> (2 * n)
      = Some (name_utf16, \<lparr>rpos = 32 + 2 * n, bsize = ?s, written = wire\<rparr>)"
    using buffer_get_at [of "guid @ ?a @ ?b" ?s name_utf16 payload] g nm
    by (simp add: wire_def)
  have s5: "buffer_get \<lparr>rpos = 32 + 2 * n, bsize = ?s, written = wire\<rparr> (length payload)
      = Some (payload, \<lparr>rpos = ?s, bsize = ?s, written = wire\<rparr>)"
    using buffer_get_at [of "guid @ ?a @ ?b @ name_utf16" ?s payload "[]"] g nm
    by (simp add: wire_def)
  show ?thesis
    using s1 s2 s3 s4 s5 dec
    by (simp add: tpm_event_parse_efi_variable_def buffer_get_utf16le_def
        unat_u64_of_nat [OF n] unat_u64_of_nat [OF m])
qed

lemma marshal_wire:
  assumes g: "length (variable_guid parsed) = 16"
    and n: "length (variable_name parsed) < 2 ^ 32"
    and m: "length raw_data < 2 ^ 32"
    and enc: "native_to_utf16le env (variable_name parsed) = Some name_utf16"
    and nm: "length name_utf16 = 2 * length (variable_name parsed)"
  defines "wire \<equiv> variable_guid parsed @ le_bytes 8 (length (variable_name parsed))
                    @ le_bytes 8 (length raw_data) @ name_utf16 @ raw_data"
  shows "tpm_event_efi_variable_build_event env parsed raw_data (length raw_data) w
     = (Some \<lparr>rpos = 0, bsize = length wire, written = wire\<rparr>, w)"
proof -
  let ?n = "length (variable_name parsed)"
  let ?a = "le_bytes 8 ?n"
  let ?b = "le_bytes 8 (length raw_data)"
  let ?s = "16 + 8 + 8 + 2 * ?n + length raw_data"
  have len: "length wire = ?s"
    using g nm by (simp add: wire_def)
  have p1: "buffer_put (buffer_alloc_write ?s) (variable_guid parsed)
      = Some \<lparr>rpos = 0, bsize = ?s, written = variable_guid parsed\<rparr>"
    using buffer_put_at [of "[]" "variable_guid parsed" ?s 0] g
    by (simp add: buffer_alloc_write_def)
  have p2: "buffer_put_u64le \<lparr>rpos = 0, bsize = ?s, written = variable_guid parsed\<rparr>
        (of_nat (?n mod 2 ^ 32))
      = Some \<lparr>rpos = 0, bsize = ?s, written = variable_guid parsed @ ?a\<rparr>"
    using buffer_put_at [of "variable_guid parsed" ?a ?s 0] g n
    by (simp add: buffer_put_u64le_def unat_u64_of_nat [OF n])
  have p3: "buffer_put_u64le \<lparr>rpos = 0, bsize = ?s, written = variable_guid parsed @ ?a\<rparr>
        (of_nat (length raw_data))
      = Some \<lparr>rpos = 0, bsize = ?s, written = variable_guid parsed @ ?a @ ?b\<rparr>"
    using buffer_put_at [of "variable_guid parsed @ ?a" ?b ?s 0] g
    by (simp add: buffer_put_u64le_def unat_u64_of_nat [OF m])
  have p4: "buffer_put_utf16le env \<lparr>rpos = 0, bsize = ?s, written = variable_guid parsed @ ?a @ ?b\<rparr>
        (variable_name parsed)
      = Some (\<lparr>rpos = 0, bsize = ?s, written = variable_guid parsed @ ?a @ ?b @ name_utf16\<rparr>,
              (2 * ?n) mod 2 ^ 32)"
    using buffer_put_at [of "variable_guid parsed @ ?a @ ?b" name_utf16 ?s 0] g nm enc
    by (simp add: buffer_put_utf16le_def)
  have p5: "buffer_put \<lparr>rpos = 0, bsize = ?s, written = variable_guid parsed @ ?a @ ?b @ name_utf16\<rparr>
        (take (length raw_data) raw_data)
      = Some \<lparr>rpos = 0, bsize = ?s, written = wire\<rparr>"
    using buffer_put_at [of "variable_guid parsed @ ?a @ ?b @ name_utf16" raw_data ?s 0] g nm
    by (simp add: wire_def)
  have "tpm_event_marshal_efi_variable env (buffer_alloc_write ?s) parsed raw_data (length raw_data)
      = Some \<lparr>rpos = 0, bsize = ?s, written = wire\<rparr>"
    using p1 p2 p3 p4 p5 n
    by (simp add: tpm_event_marshal_efi_variable_def Let_def)
  then show ?thesis
    by (simp add: tpm_event_efi_variable_build_event_def len)
qed

lemma marshal_name_len_mismatch:
  assumes "native_to_utf16le env (variable_name parsed) = Some utf16"
    and "length utf16 \<noteq> 2 * length (variable_name parsed)"
    and "length (variable_name parsed) < 2 ^ 31"
    and "length utf16 < 2 ^ 32"
  shows "tpm_event_marshal_efi_variable env bp parsed raw_data raw_data_len = None"
  using assms
  by (auto simp add: tpm_event_marshal_efi_variable_def buffer_put_utf16le_def Let_def
      split: option.splits)

lemma build_event_mismatch:
  assumes "native_to_utf16le env (variable_name parsed) = Some utf16"
    and "length utf16 \<noteq> 2 * length (variable_name parsed)"
    and "length (variable_name parsed) < 2 ^ 31"
    and "length utf16 < 2 ^ 32"
  shows "fst (tpm_event_efi_variable_build_event env parsed raw_data raw_data_len w) = None"
  using marshal_name_len_mismatch [OF assms]
  by (simp add: tpm_event_efi_variable_build_event_def)

lemma rehash_file_data_fatal:
  assumes "\<And>w'. fst (tpm_event_efi_variable_build_event env parsed
             (buffer_read_pointer fd) (buffer_available fd) w') = None"
  shows "fst (tpm_event_efi_variable_rehash_file_data env parsed alg var_name
            HASH_STRATEGY_EVENT (Some fd) w)
          = Fatal ''Unable to re-marshal EFI variable for hashing\<newline>''"
proof -
  obtain w1 where "tpm_event_efi_variable_build_event env parsed
             (buffer_read_pointer fd) (buffer_available fd) w = (None, w1)"
    using assms [of w]
    by (cases "tpm_event_efi_variable_build_event env parsed
             (buffer_read_pointer fd) (buffer_available fd) w") simp
  then show ?thesis
    by (simp add: tpm_event_efi_variable_rehash_file_data_def)
qed

lemma rehash_remarshal_fatal:
  assumes b: "\<And>raw_data raw_data_len w'.
        fst (tpm_event_efi_variable_build_event env parsed raw_data raw_data_len w') = None"
    and x: "fst (tpm_efi_variable_event_extract_full_varname env parsed w) = Some var_name"
    and d: "fst (tpm_event_efi_variable_detect_hash_strategy env ev parsed (algo ctx) w)
              = HASH_STRATEGY_EVENT"
    and c: "if event_type ev = TPM2_EFI_VARIABLE_AUTHORITY
            then fst (efi_variable_authority_get_record env parsed var_name ctx w) = Ptr fd
            else runtime_read_efi_variable env var_name = Some fd"
  shows "fst (tpm_event_efi_variable_rehash env ev parsed ctx w)
           = Fatal ''Unable to re-marshal EFI variable for hashing\<newline>''"
proof -
  obtain w1 where ex: "tpm_efi_variable_event_extract_full_varname env parsed w = (Some var_name, w1)"
    using x by (cases "tpm_efi_variable_event_extract_full_varname env parsed w") simp
  obtain h w2 where
    dt: "tpm_event_efi_variable_detect_hash_strategy env ev parsed (algo ctx) w1 = (h, w2)"
    by (cases "tpm_event_efi_variable_detect_hash_strategy env ev parsed (algo ctx) w1")
  have "fst (tpm_event_efi_variable_detect_hash_strategy env ev parsed (algo ctx) w1)
          = fst (tpm_event_efi_variable_detect_hash_strategy env ev parsed (algo ctx) w)"
    by (simp add: detect_fst_cases)
  then have h: "h = HASH_STRATEGY_EVENT"
    using d dt by simp
  have f: "fst (tpm_event_efi_variable_rehash_file_data env parsed (algo ctx) var_name
            HASH_STRATEGY_EVENT (Some fd) w')
          = Fatal ''Unable to re-marshal EFI variable for hashing\<newline>''" for w'
    using rehash_file_data_fatal [of env parsed fd] b by simp
  show ?thesis
  proof (cases "event_type ev = TPM2_EFI_VARIABLE_AUTHORITY")
    case True
    then have "fst (efi_variable_authority_get_record env parsed var_name ctx w2) = Ptr fd"
      using c get_record_fst_world [of env parsed var_name ctx w2 w] by simp
    then obtain w3 where "efi_variable_authority_get_record env parsed var_name ctx w2 = (Ptr fd, w3)"
      by (cases "efi_variable_authority_get_record env parsed var_name ctx w2") simp
    then show ?thesis
      using True h f by (simp add: rehash_unfold [OF ex dt] HASH_STRATEGY_EVENT_def)
  next
    case False
    then have "runtime_read_efi_variable env var_name = Some fd"
      using c by simp
    then show ?thesis
      using False h f by (simp add: rehash_unfold [OF ex dt] HASH_STRATEGY_EVENT_def)
  qed
qed

text \<open>
  The example environment: the name made of the letter U+0141 (L with stroke) has two chars
  in UTF-8 and one code unit in UTF-16.
\<close>

lemma le_bytes_8:
  "le_bytes 8 v =
     [of_nat (v mod 256), of_nat (v div 256 mod 256), of_nat (v div 256 div 256 mod 256),
      of_nat (v div 256 div 256 div 256 mod 256),
      of_nat (v div 256 div 256 div 256 div 256 mod 256),
      of_nat (v div 256 div 256 div 256 div 256 div 256 mod 256),
      of_nat (v div 256 div 256 div 256 div 256 div 256 div 256 mod 256),
      of_nat (v div 256 div 256 div 256 div 256 div 256 div 256 div 256 mod 256)]"
proof -
  have "(8::nat) = Suc (Suc (Suc (Suc (Suc (Suc (Suc (Suc 0)))))))"
    by simp
  then show ?thesis
    by (simp only: le_bytes.simps)
qed

lemmas ex_defs = ex_other_guid_def ex_env_def ex_digest_def ex_db_guid_def ex_parsed_def
  ex_wire_def ex_event_def ex_md_def ex_ctx_def sha256_def w0_def tpm_event_get_digest_def
  efi_variable_wire_def le_bytes_8

lemma ex_lstroke_encode: "native_to_utf16le ex_env ex_lstroke = Some [0x41, 0x01]"
  by (simp add: ex_env_def ex_lstroke_def)

lemma ex_lstroke_decode: "utf16le_to_native ex_env [0x41, 0x01] = Some ex_lstroke"
  unfolding ex_env_def ex_lstroke_def by code_simp

lemma ex_lstroke_full_name:
  "fst (tpm_efi_variable_event_extract_full_varname ex_env (ex_parsed efi_global_guid ex_lstroke) w0)
     = Some (ex_lstroke @ ''-8be4df61-93ca-11d2-aa0d-00e098032b8c'')"
  by (simp add: tpm_efi_variable_event_extract_full_varname_def snprintf_def Let_def
      ex_env_def ex_parsed_def ex_lstroke_def efi_global_guid_def ex_decode_uuid_def
      hex_byte_def hex_digit_def)

lemma ex_lstroke_detect:
  "fst (tpm_event_efi_variable_detect_hash_strategy ex_env ex_lstroke_event
          (ex_parsed efi_global_guid ex_lstroke) (algo (ex_ctx None)) w0) = HASH_STRATEGY_EVENT"
  by (simp add: detect_fst_cases ex_lstroke_event_def ex_lstroke_wire_def efi_global_guid_def ex_defs)

lemma ex_lstroke_build_event:
  "fst (tpm_event_efi_variable_build_event ex_env (ex_parsed efi_global_guid ex_lstroke)
          raw_data raw_data_len w) = None"
proof -
  have "native_to_utf16le ex_env (variable_name (ex_parsed efi_global_guid ex_lstroke))
          = Some [0x41, 0x01]"
    using ex_lstroke_encode by (simp add: ex_parsed_def)
  then show ?thesis
    by (rule build_event_mismatch) (simp_all add: ex_parsed_def ex_lstroke_def)
qed

subsection \<open>Detecting the hash strategy\<close>

text \<open>
  Claim C10. When the digest the log recorded for the event equals both the digest of the raw
  event bytes and the digest of the decoded payload, the detection returns
  \<open>HASH_STRATEGY_EVENT\<close> (WholeEvent): the comparison with the whole event comes first.
\<close>

theorem detect_whole_event_first:
  assumes "tpm_event_get_digest ev (openssl_name alg) = Some old_md"
    and "old_md = digest_compute env alg (event_data ev)"
    and "old_md = digest_compute env alg (data parsed)"
  shows "fst (tpm_event_efi_variable_detect_hash_strategy env ev parsed alg w) = HASH_STRATEGY_EVENT"
  using assms
  by (simp add: tpm_event_efi_variable_detect_hash_strategy_def digest_equal_def)

text \<open>
  An event whose raw bytes and payload have the same digest (the sum of the bytes, here 6),
  recorded in the log.
\<close>

theorem detect_whole_event_first_witness:
  "tpm_event_get_digest (ex_event (TPM2_EVENT_OTHER 0x80000001) [ex_md ''sha256'' 6] ex_other_guid)
       (openssl_name sha256) = Some (ex_md ''sha256'' 6)
   \<and> ex_md ''sha256'' 6 = digest_compute ex_env sha256
         (event_data (ex_event (TPM2_EVENT_OTHER 0x80000001) [ex_md ''sha256'' 6] ex_other_guid))
   \<and> ex_md ''sha256'' 6 = digest_compute ex_env sha256 (data (ex_parsed ex_other_guid ''db''))
   \<and> fst (tpm_event_efi_variable_detect_hash_strategy ex_env
         (ex_event (TPM2_EVENT_OTHER 0x80000001) [ex_md ''sha256'' 6] ex_other_guid)
         (ex_parsed ex_other_guid ''db'') sha256 w0) = HASH_STRATEGY_EVENT"
proof -
  have h1: "tpm_event_get_digest (ex_event (TPM2_EVENT_OTHER 0x80000001) [ex_md ''sha256'' 6] ex_other_guid)
       (openssl_name sha256) = Some (ex_md ''sha256'' 6)"
    by (simp add: ex_defs)
  have h2: "ex_md ''sha256'' 6 = digest_compute ex_env sha256
         (event_data (ex_event (TPM2_EVENT_OTHER 0x80000001) [ex_md ''sha256'' 6] ex_other_guid))"
    by (simp add: ex_defs)
  have h3: "ex_md ''sha256'' 6 = digest_compute ex_env sha256 (data (ex_parsed ex_other_guid ''db''))"
    by (simp add: ex_defs)
  show ?thesis
    using detect_whole_event_first [OF h1 h2 h3, of w0] h1 h2 h3 by simp
qed

text \<open>
  Claim C1. For an event with a recorded digest for the algorithm: if it equals the digest of
  the raw event bytes, the detection returns \<open>HASH_STRATEGY_EVENT\<close> (WholeEvent);
  otherwise, if it equals the digest of the decoded payload, it returns
  \<open>HASH_STRATEGY_DATA\<close> (DataOnly); and if it equals neither, it returns
  \<open>HASH_STRATEGY_DATA\<close> as well and reports that the hashing convention is undetermined.
  In the C code that report is the diagnostic \<open>I'm lost.\<close> handed to \<open>debug\<close>, which
  no other branch issues; the number returned is the one returned for a payload match.
\<close>

theorem detect_hash_strategy_cases:
  assumes "tpm_event_get_digest ev (openssl_name alg) = Some old_md"
  shows "(old_md = digest_compute env alg (event_data ev) \<longrightarrow>
            tpm_event_efi_variable_detect_hash_strategy env ev parsed alg w
              = (HASH_STRATEGY_EVENT, debug ''  Firmware hashed entire event data\<newline>'' w))
       \<and> (old_md \<noteq> digest_compute env alg (event_data ev)
            \<and> old_md = digest_compute env alg (data parsed) \<longrightarrow>
            tpm_event_efi_variable_detect_hash_strategy env ev parsed alg w
              = (HASH_STRATEGY_DATA, debug ''  Firmware hashed variable data\<newline>'' w))
       \<and> (old_md \<noteq> digest_compute env alg (event_data ev)
            \<and> old_md \<noteq> digest_compute env alg (data parsed) \<longrightarrow>
            tpm_event_efi_variable_detect_hash_strategy env ev parsed alg w
              = (HASH_STRATEGY_DATA, debug ''  I'm lost.\<newline>'' w))"
  using assms
  by (simp add: tpm_event_efi_variable_detect_hash_strategy_def digest_equal_def Let_def)

text \<open>
  The three cases on one event: the log recorded the digest of the raw bytes (0xE2), of the
  payload (6), or neither (0).
\<close>

theorem detect_hash_strategy_cases_witness:
  "tpm_event_efi_variable_detect_hash_strategy ex_env
     (ex_event (TPM2_EVENT_OTHER 0x80000001) [ex_md ''sha256'' 0xE2] ex_db_guid)
     (ex_parsed ex_db_guid ''db'') sha256 w0
     = (HASH_STRATEGY_EVENT, debug ''  Firmware hashed entire event data\<newline>'' w0)
   \<and> tpm_event_efi_variable_detect_hash_strategy ex_env
     (ex_event (TPM2_EVENT_OTHER 0x80000001) [ex_md ''sha256'' 6] ex_db_guid)
     (ex_parsed ex_db_guid ''db'') sha256 w0
     = (HASH_STRATEGY_DATA, debug ''  Firmware hashed variable data\<newline>'' w0)
   \<and> tpm_event_efi_variable_detect_hash_strategy ex_env
     (ex_event (TPM2_EVENT_OTHER 0x80000001) [ex_md ''sha256'' 0] ex_db_guid)
     (ex_parsed ex_db_guid ''db'') sha256 w0
     = (HASH_STRATEGY_DATA, debug ''  I'm lost.\<newline>'' w0)"
  using
    detect_hash_strategy_cases [of "ex_event (TPM2_EVENT_OTHER 0x80000001) [ex_md ''sha256'' 0xE2] ex_db_guid"
      sha256 "ex_md ''sha256'' 0xE2" ex_env "ex_parsed ex_db_guid ''db''" w0]
    detect_hash_strategy_cases [of "ex_event (TPM2_EVENT_OTHER 0x80000001) [ex_md ''sha256'' 6] ex_db_guid"
      sha256 "ex_md ''sha256'' 6" ex_env "ex_parsed ex_db_guid ''db''" w0]
    detect_hash_strategy_cases [of "ex_event (TPM2_EVENT_OTHER 0x80000001) [ex_md ''sha256'' 0] ex_db_guid"
      sha256 "ex_md ''sha256'' 0" ex_env "ex_parsed ex_db_guid ''db''" w0]
  by (simp add: ex_defs)

text \<open>
  Claim C7. When the log entry has no digest for the requested algorithm, the detection of
  the hash strategy fails (it returns \<open>-1\<close>) and the rehash of the event returns no
  digest (\<open>NULL\<close>).
\<close>

theorem rehash_no_recorded_digest:
  assumes "tpm_event_get_digest ev (openssl_name (algo ctx)) = None"
  shows "fst (tpm_event_efi_variable_detect_hash_strategy env ev parsed (algo ctx) w) = - 1
       \<and> fst (tpm_event_efi_variable_rehash env ev parsed ctx w) = Return None"
proof -
  obtain s w1 where ex: "tpm_efi_variable_event_extract_full_varname env parsed w = (Some s, w1)"
    using extract_full_varname_Some by blast
  obtain h w2 where
    dt: "tpm_event_efi_variable_detect_hash_strategy env ev parsed (algo ctx) w1 = (h, w2)"
    by (cases "tpm_event_efi_variable_detect_hash_strategy env ev parsed (algo ctx) w1")
  have "h = - 1"
    using detect_fst_cases [of env ev parsed "algo ctx" w1] assms dt by simp
  then have "fst (tpm_event_efi_variable_rehash env ev parsed ctx w) = Return None"
    by (simp add: rehash_unfold [OF ex dt])
  moreover have "fst (tpm_event_efi_variable_detect_hash_strategy env ev parsed (algo ctx) w) = - 1"
    using assms by (simp add: detect_fst_cases)
  ultimately show ?thesis by simp
qed

text \<open>
  A log entry with a sha1 digest only, rehashed for sha256.
\<close>

theorem rehash_no_recorded_digest_witness:
  "tpm_event_get_digest (ex_event TPM2_EFI_VARIABLE_AUTHORITY [ex_md ''sha1'' 6] ex_db_guid)
       (openssl_name (algo (ex_ctx None))) = None
   \<and> fst (tpm_event_efi_variable_rehash ex_env
        (ex_event TPM2_EFI_VARIABLE_AUTHORITY [ex_md ''sha1'' 6] ex_db_guid)
        (ex_parsed ex_db_guid ''db'') (ex_ctx None) w0) = Return None"
proof -
  have h: "tpm_event_get_digest (ex_event TPM2_EFI_VARIABLE_AUTHORITY [ex_md ''sha1'' 6] ex_db_guid)
       (openssl_name (algo (ex_ctx None))) = None"
    by (simp add: ex_defs)
  show ?thesis
    using rehash_no_recorded_digest [OF h, of ex_env "ex_parsed ex_db_guid ''db''" w0] h by simp
qed

subsection \<open>Resolving the authority record\<close>

text \<open>
  Claim C6. In \<open>efi_variable_authority_get_record\<close> the short name \<open>Shim\<close> selects the
  database \<open>shim-vendor-cert\<close>, \<open>db\<close> selects \<open>db\<close> and \<open>MokListRT\<close> selects
  \<open>MokList\<close>: with a next stage image and its signer at hand, the result is what the
  lookup of the signer in that database gives. For every other short name the result is the
  live value of the variable read under the name handed over, whatever the context holds,
  and nothing is reported; the rehash, which hands over the full name, then does for the
  authority event what it does for the same event of any other type.
\<close>

theorem authority_get_record_mapping:
  "(next_stage_img ctx = Some img \<and> authenticode_get_signer env img = Some signer \<longrightarrow>
      (variable_name parsed = ''Shim'' \<longrightarrow>
         fst (efi_variable_authority_get_record env parsed var_name ctx w)
           = ptr_of (efi_application_locate_authority_record env ''shim-vendor-cert'' signer))
    \<and> (variable_name parsed = ''db'' \<longrightarrow>
         fst (efi_variable_authority_get_record env parsed var_name ctx w)
           = ptr_of (efi_application_locate_authority_record env ''db'' signer))
    \<and> (variable_name parsed = ''MokListRT'' \<longrightarrow>
         fst (efi_variable_authority_get_record env parsed var_name ctx w)
           = ptr_of (efi_application_locate_authority_record env ''MokList'' signer)))
   \<and> (variable_name parsed \<notin> {''Shim'', ''db'', ''MokListRT''} \<longrightarrow>
        efi_variable_authority_get_record env parsed var_name ctx w
          = (ptr_of (runtime_read_efi_variable env var_name), w)
        \<and> tpm_event_efi_variable_rehash env ev parsed ctx w
          = tpm_event_efi_variable_rehash env (ev\<lparr>event_type := TPM2_EVENT_OTHER t\<rparr>) parsed ctx w)"
  using get_record_signer [of ctx img env signer parsed var_name w]
    get_record_other [of parsed env var_name ctx w]
    rehash_authority_other_name [of parsed env ev ctx w t]
  by blast

text \<open>
  The example environment keeps a different record for the vendor certificate in each of the
  three databases, and a live value for \<open>SbatLevel\<close>.
\<close>

theorem authority_get_record_mapping_witness:
  "fst (efi_variable_authority_get_record ex_env (ex_parsed ex_db_guid ''Shim'')
          ''Shim-d719b2cb-3d3a-4596-a3bc-dad00e67656f'' (ex_ctx (Some [0x4D, 0x5A])) w0)
     = Ptr \<lparr>rpos = 0, bsize = 3, written = [0x30, 0x82, 0x04]\<rparr>
   \<and> fst (efi_variable_authority_get_record ex_env (ex_parsed ex_db_guid ''db'')
          ''db-d719b2cb-3d3a-4596-a3bc-dad00e67656f'' (ex_ctx (Some [0x4D, 0x5A])) w0)
     = Ptr \<lparr>rpos = 0, bsize = 3, written = [0x30, 0x82, 0x03]\<rparr>
   \<and> fst (efi_variable_authority_get_record ex_env (ex_parsed ex_db_guid ''MokListRT'')
          ''MokListRT-d719b2cb-3d3a-4596-a3bc-dad00e67656f'' (ex_ctx (Some [0x4D, 0x5A])) w0)
     = Ptr \<lparr>rpos = 0, bsize = 3, written = [0x30, 0x82, 0x05]\<rparr>
   \<and> efi_variable_authority_get_record ex_env (ex_parsed ex_db_guid ''SbatLevel'')
          ''SbatLevel-605dab50-e046-4300-abb6-3dd810dd8b23'' (ex_ctx (Some [0x4D, 0x5A])) w0
     = (Ptr \<lparr>rpos = 0, bsize = 4, written = [0x73, 0x62, 0x61, 0x74]\<rparr>, w0)"
  using
    authority_get_record_mapping [of "ex_ctx (Some [0x4D, 0x5A])" "[0x4D, 0x5A]" ex_env
      "''CN=Vendor CA''" "ex_parsed ex_db_guid ''Shim''"
      "''Shim-d719b2cb-3d3a-4596-a3bc-dad00e67656f''" w0]
    authority_get_record_mapping [of "ex_ctx (Some [0x4D, 0x5A])" "[0x4D, 0x5A]" ex_env
      "''CN=Vendor CA''" "ex_parsed ex_db_guid ''db''"
      "''db-d719b2cb-3d3a-4596-a3bc-dad00e67656f''" w0]
    authority_get_record_mapping [of "ex_ctx (Some [0x4D, 0x5A])" "[0x4D, 0x5A]" ex_env
      "''CN=Vendor CA''" "ex_parsed ex_db_guid ''MokListRT''"
      "''MokListRT-d719b2cb-3d3a-4596-a3bc-dad00e67656f''" w0]
    authority_get_record_mapping [of "ex_ctx (Some [0x4D, 0x5A])" "[0x4D, 0x5A]" ex_env
      "''CN=Vendor CA''" "ex_parsed ex_db_guid ''SbatLevel''"
      "''SbatLevel-605dab50-e046-4300-abb6-3dd810dd8b23''" w0]
  by (simp add: ex_defs ptr_of_def)

text \<open>
  Claim C2. For an EFI_VARIABLE_AUTHORITY event of the variable \<open>db\<close> whose recorded digest
  is the digest of its payload, with the strategy \<open>HASH_STRATEGY_DATA\<close> (DataOnly) detected,
  a next stage image whose signer is found, and a record \<open>R\<close> for that signer in the database
  \<open>db\<close>: the rehash returns the digest of the bytes of \<open>R\<close>. The algorithm is the one of
  the context, whichever it is, sha256 among them.
\<close>

theorem rehash_authority_db_record:
  assumes "event_type ev = TPM2_EFI_VARIABLE_AUTHORITY"
    and "variable_name parsed = ''db''"
    and "tpm_event_get_digest ev (openssl_name (algo ctx))
           = Some (digest_compute env (algo ctx) (data parsed))"
    and "fst (tpm_event_efi_variable_detect_hash_strategy env ev parsed (algo ctx) w)
           = HASH_STRATEGY_DATA"
    and "next_stage_img ctx = Some img"
    and "authenticode_get_signer env img = Some signer"
    and "efi_application_locate_authority_record env ''db'' signer = Some R"
  shows "fst (tpm_event_efi_variable_rehash env ev parsed ctx w)
           = Return (Some (digest_compute env (algo ctx) (buffer_read_pointer R)))"
proof -
  obtain s w1 where ex: "tpm_efi_variable_event_extract_full_varname env parsed w = (Some s, w1)"
    using extract_full_varname_Some by blast
  obtain h w2 where
    dt: "tpm_event_efi_variable_detect_hash_strategy env ev parsed (algo ctx) w1 = (h, w2)"
    by (cases "tpm_event_efi_variable_detect_hash_strategy env ev parsed (algo ctx) w1")
  have "fst (tpm_event_efi_variable_detect_hash_strategy env ev parsed (algo ctx) w1)
          = fst (tpm_event_efi_variable_detect_hash_strategy env ev parsed (algo ctx) w)"
    by (simp add: detect_fst_cases)
  then have h: "h = HASH_STRATEGY_DATA"
    using assms(4) dt by simp
  have "fst (efi_variable_authority_get_record env parsed s ctx w2) = Ptr R"
    using get_record_signer [OF assms(5,6), of parsed s w2] assms(2,7)
    by (simp add: ptr_of_def)
  then obtain w3 where gr: "efi_variable_authority_get_record env parsed s ctx w2 = (Ptr R, w3)"
    by (cases "efi_variable_authority_get_record env parsed s ctx w2") simp
  show ?thesis
    using assms(1) h gr
    by (simp add: rehash_unfold [OF ex dt] tpm_event_efi_variable_rehash_file_data_def
        HASH_STRATEGY_DATA_def HASH_STRATEGY_EVENT_def)
qed

text \<open>
  With sha256 as the algorithm of the context: the record has the bytes 0x30, 0x82, 0x03,
  whose digest in the example environment is 0xB5.
\<close>

theorem rehash_authority_db_record_witness:
  "fst (tpm_event_efi_variable_rehash ex_env
        (ex_event TPM2_EFI_VARIABLE_AUTHORITY [ex_md ''sha256'' 6] ex_db_guid)
        (ex_parsed ex_db_guid ''db'') (ex_ctx (Some [0x4D, 0x5A])) w0)
     = Return (Some (ex_md ''sha256'' 0xB5))"
proof -
  let ?ev = "ex_event TPM2_EFI_VARIABLE_AUTHORITY [ex_md ''sha256'' 6] ex_db_guid"
  let ?R = "\<lparr>rpos = 0, bsize = 3, written = [0x30, 0x82, 0x03 :: byte]\<rparr>"
  have h1: "event_type ?ev = TPM2_EFI_VARIABLE_AUTHORITY"
    by (simp add: ex_defs)
  have h2: "variable_name (ex_parsed ex_db_guid ''db'') = ''db''"
    by (simp add: ex_defs)
  have h3: "tpm_event_get_digest ?ev (openssl_name (algo (ex_ctx (Some [0x4D, 0x5A]))))
              = Some (digest_compute ex_env (algo (ex_ctx (Some [0x4D, 0x5A])))
                       (data (ex_parsed ex_db_guid ''db'')))"
    by (simp add: ex_defs)
  have h4: "fst (tpm_event_efi_variable_detect_hash_strategy ex_env ?ev (ex_parsed ex_db_guid ''db'')
              (algo (ex_ctx (Some [0x4D, 0x5A]))) w0) = HASH_STRATEGY_DATA"
    by (simp add: detect_fst_cases ex_defs)
  have h5: "next_stage_img (ex_ctx (Some [0x4D, 0x5A])) = Some [0x4D, 0x5A]"
    by (simp add: ex_defs)
  have h6: "authenticode_get_signer ex_env [0x4D, 0x5A] = Some ''CN=Vendor CA''"
    by (simp add: ex_defs)
  have h7: "efi_application_locate_authority_record ex_env ''db'' ''CN=Vendor CA'' = Some ?R"
    by (simp add: ex_defs)
  show ?thesis
    using rehash_authority_db_record [OF h1 h2 h3 h4 h5 h6 h7]
    by (simp add: ex_defs buffer_read_pointer_def)
qed

text \<open>
  Claim C3, amended. For an EFI_VARIABLE_AUTHORITY event whose short name is \<open>Shim\<close>,
  \<open>db\<close> or \<open>MokListRT\<close> and whose log entry records a digest for the algorithm of the
  context: when the context has no next stage image, the rehash returns that recorded digest.
\<close>

theorem rehash_authority_unchanged:
  assumes "event_type ev = TPM2_EFI_VARIABLE_AUTHORITY"
    and "variable_name parsed \<in> {''Shim'', ''db'', ''MokListRT''}"
    and "next_stage_img ctx = None"
    and "tpm_event_get_digest ev (openssl_name (algo ctx)) = Some d"
  shows "fst (tpm_event_efi_variable_rehash env ev parsed ctx w) = Return (Some d)"
proof -
  obtain s w1 where ex: "tpm_efi_variable_event_extract_full_varname env parsed w = (Some s, w1)"
    using extract_full_varname_Some by blast
  obtain h w2 where
    dt: "tpm_event_efi_variable_detect_hash_strategy env ev parsed (algo ctx) w1 = (h, w2)"
    by (cases "tpm_event_efi_variable_detect_hash_strategy env ev parsed (algo ctx) w1")
  have h: "\<not> h < 0"
    using detect_fst_cases [of env ev parsed "algo ctx" w1] assms(4) dt
    by (auto simp add: HASH_STRATEGY_DATA_def HASH_STRATEGY_EVENT_def split: if_splits)
  obtain w3 where
    gr: "efi_variable_authority_get_record env parsed s ctx w2 = (EFI_BSA_NOT_FOUND, w3)"
    using get_record_no_image [OF assms(2,3), of env s w2]
    by (cases "efi_variable_authority_get_record env parsed s ctx w2") simp
  show ?thesis
    using assms(1,4) h gr by (simp add: rehash_unfold [OF ex dt])
qed

text \<open>
  The recorded digest comes back as it is.
\<close>

theorem rehash_authority_unchanged_witness:
  "fst (tpm_event_efi_variable_rehash ex_env
        (ex_event TPM2_EFI_VARIABLE_AUTHORITY [ex_md ''sha256'' 6] ex_db_guid)
        (ex_parsed ex_db_guid ''db'') (ex_ctx None) w0)
     = Return (Some (ex_md ''sha256'' 6))"
  using rehash_authority_unchanged [of "ex_event TPM2_EFI_VARIABLE_AUTHORITY [ex_md ''sha256'' 6] ex_db_guid"
      "ex_parsed ex_db_guid ''db''" "ex_ctx None" "ex_md ''sha256'' 6" ex_env w0]
  by (simp add: ex_defs)

text \<open>
  Claim C3 as stated fails for an event without a recorded digest for the algorithm: the
  test of the hash strategy comes before the authority record is looked at, and the rehash
  returns no digest. Here the log recorded a sha1 digest only and the context asks for sha256.
\<close>

theorem rehash_authority_no_digest_counterexample:
  "event_type (ex_event TPM2_EFI_VARIABLE_AUTHORITY [ex_md ''sha1'' 6] ex_db_guid)
     = TPM2_EFI_VARIABLE_AUTHORITY
   \<and> variable_name (ex_parsed ex_db_guid ''db'') = ''db''
   \<and> next_stage_img (ex_ctx None) = None
   \<and> fst (tpm_event_efi_variable_rehash ex_env
        (ex_event TPM2_EFI_VARIABLE_AUTHORITY [ex_md ''sha1'' 6] ex_db_guid)
        (ex_parsed ex_db_guid ''db'') (ex_ctx None) w0) = Return None"
  by (simp add: ex_defs tpm_event_efi_variable_rehash_def
      tpm_efi_variable_event_extract_full_varname_def
      tpm_event_efi_variable_detect_hash_strategy_def Let_def)

subsection \<open>Content that cannot be resolved\<close>

text \<open>
  Claim C9, amended. The rehash returns no digest (\<open>NULL\<close>) alike when the live variable
  cannot be read (for an event of another type, or an authority event whose short name is
  not one of the three), when the database has no record for the signer, and when the next
  stage image has no signer: at the interface of the rehash these outcomes are one.
\<close>

theorem rehash_unavailable_or_failed:
  assumes "fst (tpm_efi_variable_event_extract_full_varname env parsed w) = Some var_name"
    and "(event_type ev \<noteq> TPM2_EFI_VARIABLE_AUTHORITY
            \<and> runtime_read_efi_variable env var_name = None)
       \<or> (event_type ev = TPM2_EFI_VARIABLE_AUTHORITY
            \<and> variable_name parsed \<notin> {''Shim'', ''db'', ''MokListRT''}
            \<and> runtime_read_efi_variable env var_name = None)
       \<or> (event_type ev = TPM2_EFI_VARIABLE_AUTHORITY
            \<and> next_stage_img ctx = Some img
            \<and> authenticode_get_signer env img = Some signer
            \<and> (variable_name parsed = ''Shim''
                  \<and> efi_application_locate_authority_record env ''shim-vendor-cert'' signer = None
                \<or> variable_name parsed = ''db''
                  \<and> efi_application_locate_authority_record env ''db'' signer = None
                \<or> variable_name parsed = ''MokListRT''
                  \<and> efi_application_locate_authority_record env ''MokList'' signer = None))
       \<or> (event_type ev = TPM2_EFI_VARIABLE_AUTHORITY
            \<and> variable_name parsed \<in> {''Shim'', ''db'', ''MokListRT''}
            \<and> next_stage_img ctx = Some img
            \<and> authenticode_get_signer env img = None)"
  shows "fst (tpm_event_efi_variable_rehash env ev parsed ctx w) = Return None"
proof (rule rehash_no_content [OF assms(1)])
  show "if event_type ev = TPM2_EFI_VARIABLE_AUTHORITY
        then fst (efi_variable_authority_get_record env parsed var_name ctx w) = NULL
        else runtime_read_efi_variable env var_name = None"
    using assms(2)
    by (auto simp add: efi_variable_authority_get_record_def ptr_of_def)
qed

text \<open>
  An unreadable variable, a signer without a record and an image without a signer.
\<close>

theorem rehash_unavailable_or_failed_witness:
  "fst (tpm_event_efi_variable_rehash ex_env
        (ex_event (TPM2_EVENT_OTHER 0x80000002) [ex_md ''sha256'' 6] ex_db_guid)
        (ex_parsed ex_db_guid ''db'') (ex_ctx None) w0) = Return None
   \<and> fst (tpm_event_efi_variable_rehash ex_env
        (ex_event TPM2_EFI_VARIABLE_AUTHORITY [ex_md ''sha256'' 6] ex_db_guid)
        (ex_parsed ex_db_guid ''db'') (ex_ctx (Some [0x7F])) w0) = Return None
   \<and> fst (tpm_event_efi_variable_rehash ex_env
        (ex_event TPM2_EFI_VARIABLE_AUTHORITY [ex_md ''sha256'' 6] ex_db_guid)
        (ex_parsed ex_db_guid ''db'') (ex_ctx (Some [])) w0) = Return None"
proof -
  let ?name = "''db-d719b2cb-3d3a-4596-a3bc-dad00e67656f''"
  have x: "fst (tpm_efi_variable_event_extract_full_varname ex_env (ex_parsed ex_db_guid ''db'') w0)
        = Some ?name"
    by (simp add: tpm_efi_variable_event_extract_full_varname_def snprintf_def Let_def
        ex_defs ex_decode_uuid_def hex_byte_def hex_digit_def)
  show ?thesis
    using
      rehash_unavailable_or_failed [OF x,
        of "ex_event (TPM2_EVENT_OTHER 0x80000002) [ex_md ''sha256'' 6] ex_db_guid"
           "ex_ctx None" "[]" "[]"]
      rehash_unavailable_or_failed [OF x,
        of "ex_event TPM2_EFI_VARIABLE_AUTHORITY [ex_md ''sha256'' 6] ex_db_guid"
           "ex_ctx (Some [0x7F])" "[0x7F]" "''CN=Unknown''"]
      rehash_unavailable_or_failed [OF x,
        of "ex_event TPM2_EFI_VARIABLE_AUTHORITY [ex_md ''sha256'' 6] ex_db_guid"
           "ex_ctx (Some [])" "[]" "[]"]
    by (simp add: ex_defs)
qed

text \<open>
  Claim C9 as stated fails: the rehash of an event whose live variable cannot be read and
  the rehash of the same event, typed as an authority event, whose next stage image has no
  signer, return the same value and leave the same state.
\<close>

theorem rehash_unavailable_or_failed_counterexample:
  "event_type (ex_event (TPM2_EVENT_OTHER 0x80000002) [ex_md ''sha256'' 6] ex_db_guid)
     \<noteq> TPM2_EFI_VARIABLE_AUTHORITY
   \<and> runtime_read_efi_variable ex_env ''db-d719b2cb-3d3a-4596-a3bc-dad00e67656f'' = None
   \<and> event_type (ex_event TPM2_EFI_VARIABLE_AUTHORITY [ex_md ''sha256'' 6] ex_db_guid)
     = TPM2_EFI_VARIABLE_AUTHORITY
   \<and> authenticode_get_signer ex_env [] = None
   \<and> tpm_event_efi_variable_rehash ex_env
        (ex_event (TPM2_EVENT_OTHER 0x80000002) [ex_md ''sha256'' 6] ex_db_guid)
        (ex_parsed ex_db_guid ''db'') (ex_ctx (Some [])) w0
     = tpm_event_efi_variable_rehash ex_env
        (ex_event TPM2_EFI_VARIABLE_AUTHORITY [ex_md ''sha256'' 6] ex_db_guid)
        (ex_parsed ex_db_guid ''db'') (ex_ctx (Some [])) w0
   \<and> fst (tpm_event_efi_variable_rehash ex_env
        (ex_event TPM2_EFI_VARIABLE_AUTHORITY [ex_md ''sha256'' 6] ex_db_guid)
        (ex_parsed ex_db_guid ''db'') (ex_ctx (Some [])) w0) = Return None"
  by (simp add: ex_defs tpm_event_efi_variable_rehash_def
      tpm_efi_variable_event_extract_full_varname_def snprintf_def
      tpm_event_efi_variable_detect_hash_strategy_def digest_equal_def
      efi_variable_authority_get_record_def tpm_event_efi_variable_rehash_file_data_def
      HASH_STRATEGY_DATA_def HASH_STRATEGY_EVENT_def
      ex_decode_uuid_def hex_byte_def hex_digit_def Let_def)

subsection \<open>The full name of a variable\<close>

text \<open>
  Claim C8, amended. When the shim loader has a name for the variable, that name is returned
  as it is and nothing else changes. Otherwise the function returns the first 255 chars of
  \<open><name>-<guid>\<close>, the GUID as \<open>tpm_event_decode_uuid\<close> renders it, which is all of
  it when it is no longer than 255 chars; it stores that text in the static buffer
  \<open>varname\<close>, replacing what an earlier call left there. The function always returns a
  name.
\<close>

theorem extract_full_varname_result:
  "(shim_variable_get_full_rtname env (variable_name parsed) = Some alias \<longrightarrow>
      tpm_efi_variable_event_extract_full_varname env parsed w = (Some alias, w))
   \<and> (shim_variable_get_full_rtname env (variable_name parsed) = None \<longrightarrow>
      tpm_efi_variable_event_extract_full_varname env parsed w
        = (Some (take 255 (variable_name parsed @ ''-''
                   @ tpm_event_decode_uuid env (variable_guid parsed))),
           w\<lparr>varname := take 255 (variable_name parsed @ ''-''
                   @ tpm_event_decode_uuid env (variable_guid parsed))\<rparr>))
   \<and> (shim_variable_get_full_rtname env (variable_name parsed) = None
       \<and> length (variable_name parsed @ ''-''
                   @ tpm_event_decode_uuid env (variable_guid parsed)) \<le> 255 \<longrightarrow>
      fst (tpm_efi_variable_event_extract_full_varname env parsed w)
        = Some (variable_name parsed @ ''-'' @ tpm_event_decode_uuid env (variable_guid parsed)))
   \<and> (\<exists>s. fst (tpm_efi_variable_event_extract_full_varname env parsed w) = Some s)"
  by (cases "shim_variable_get_full_rtname env (variable_name parsed)")
    (simp_all add: tpm_efi_variable_event_extract_full_varname_def snprintf_def Let_def)

text \<open>
  A variable with a shim name and one without.
\<close>

theorem extract_full_varname_result_witness:
  "tpm_efi_variable_event_extract_full_varname ex_env (ex_parsed ex_db_guid ''MokList'') w0
     = (Some ''MokListRT-605dab50-e046-4300-abb6-3dd810dd8b23'', w0)
   \<and> tpm_efi_variable_event_extract_full_varname ex_env (ex_parsed ex_db_guid ''db'') w0
     = (Some ''db-d719b2cb-3d3a-4596-a3bc-dad00e67656f'',
        w0\<lparr>varname := ''db-d719b2cb-3d3a-4596-a3bc-dad00e67656f''\<rparr>)"
  using extract_full_varname_result [of ex_env "ex_parsed ex_db_guid ''MokList''"
      "''MokListRT-605dab50-e046-4300-abb6-3dd810dd8b23''" w0]
    extract_full_varname_result [of ex_env "ex_parsed ex_db_guid ''db''" "[]" w0]
  by (simp add: ex_defs ex_decode_uuid_def hex_byte_def hex_digit_def)

text \<open>
  Claim C8 as stated fails for a name of 250 chars without a shim name: the text
  \<open><name>-<guid>\<close> has 287 chars, the result only 255; and the call changes the static
  buffer.
\<close>

theorem extract_full_varname_counterexample:
  "shim_variable_get_full_rtname ex_env (replicate 250 (CHR ''a'')) = None
   \<and> fst (tpm_efi_variable_event_extract_full_varname ex_env
            (ex_parsed ex_db_guid (replicate 250 (CHR ''a''))) w0)
       \<noteq> Some (replicate 250 (CHR ''a'') @ ''-'' @ tpm_event_decode_uuid ex_env ex_db_guid)
   \<and> snd (tpm_efi_variable_event_extract_full_varname ex_env
            (ex_parsed ex_db_guid (replicate 250 (CHR ''a''))) w0) \<noteq> w0"
proof -
  let ?name = "replicate 250 (CHR ''a'')"
  let ?full = "?name @ ''-'' @ tpm_event_decode_uuid ex_env ex_db_guid"
  have "length ?name \<noteq> length ''MokList''"
    by simp
  then have "?name \<noteq> ''MokList''"
    by metis
  then have shim: "shim_variable_get_full_rtname ex_env ?name = None"
    by (simp add: ex_env_def)
  have res: "tpm_efi_variable_event_extract_full_varname ex_env (ex_parsed ex_db_guid ?name) w0
          = (Some (take 255 ?full), w0\<lparr>varname := take 255 ?full\<rparr>)"
    using shim
    by (simp add: tpm_efi_variable_event_extract_full_varname_def snprintf_def Let_def
        ex_parsed_def)
  have uuid: "tpm_event_decode_uuid ex_env ex_db_guid = ''d719b2cb-3d3a-4596-a3bc-dad00e67656f''"
    by (simp add: ex_env_def ex_db_guid_def ex_decode_uuid_def hex_byte_def hex_digit_def)
  have "length (take 255 ?full) \<noteq> length ?full"
    by (simp add: uuid)
  then have ne: "take 255 ?full \<noteq> ?full"
    by metis
  have "length (varname (w0\<lparr>varname := take 255 ?full\<rparr>)) \<noteq> length (varname w0)"
    by (simp add: w0_def)
  then have "w0\<lparr>varname := take 255 ?full\<rparr> \<noteq> w0"
    by metis
  then show ?thesis
    using shim res ne by simp
qed

subsection \<open>Marshaling and decoding\<close>

text \<open>
  Claim C4, amended. When the UTF-16LE text of the name does not take twice as many bytes as
  the name has chars (the number written as the name length), the marshaling fails and
  \<open>tpm_event_efi_variable_build_event\<close> returns \<open>NULL\<close>; a rehash that gets there, having
  detected \<open>HASH_STRATEGY_EVENT\<close> and resolved the content, then calls \<open>fatal\<close>, which
  ends the program. The name is shorter than \<open>2^31\<close> chars and its UTF-16LE text shorter
  than \<open>2^32\<close> bytes, so that the two \<open>unsigned int\<close> hold them.
\<close>

theorem remarshal_name_length_mismatch:
  assumes "native_to_utf16le env (variable_name parsed) = Some utf16"
    and "length utf16 \<noteq> 2 * length (variable_name parsed)"
    and "length (variable_name parsed) < 2 ^ 31"
    and "length utf16 < 2 ^ 32"
  shows "fst (tpm_event_efi_variable_build_event env parsed raw_data raw_data_len w) = None
       \<and> (fst (tpm_efi_variable_event_extract_full_varname env parsed w) = Some var_name
          \<and> fst (tpm_event_efi_variable_detect_hash_strategy env ev parsed (algo ctx) w)
              = HASH_STRATEGY_EVENT
          \<and> (if event_type ev = TPM2_EFI_VARIABLE_AUTHORITY
              then fst (efi_variable_authority_get_record env parsed var_name ctx w) = Ptr fd
              else runtime_read_efi_variable env var_name = Some fd)
          \<longrightarrow> fst (tpm_event_efi_variable_rehash env ev parsed ctx w)
                = Fatal ''Unable to re-marshal EFI variable for hashing\<newline>'')"
  using build_event_mismatch [OF assms]
    rehash_remarshal_fatal [of env parsed w var_name ev ctx fd]
  by blast

text \<open>
  The name U+0141, two chars in UTF-8 whose UTF-16LE text has two bytes, not four.
\<close>

theorem remarshal_name_length_mismatch_witness:
  "fst (tpm_event_efi_variable_build_event ex_env (ex_parsed efi_global_guid ex_lstroke)
          [0x07] 1 w0) = None
   \<and> fst (tpm_event_efi_variable_rehash ex_env ex_lstroke_event
            (ex_parsed efi_global_guid ex_lstroke) (ex_ctx None) w0)
       = Fatal ''Unable to re-marshal EFI variable for hashing\<newline>''"
proof -
  let ?parsed = "ex_parsed efi_global_guid ex_lstroke"
  let ?fd = "\<lparr>rpos = 0, bsize = 1, written = [0x07 :: byte]\<rparr>"
  have h1: "native_to_utf16le ex_env (variable_name ?parsed) = Some [0x41, 0x01]"
    using ex_lstroke_encode by (simp add: ex_parsed_def)
  have h2: "length [0x41, 0x01 :: byte] \<noteq> 2 * length (variable_name ?parsed)"
    by (simp add: ex_parsed_def ex_lstroke_def)
  have h3: "length (variable_name ?parsed) < 2 ^ 31"
    by (simp add: ex_parsed_def ex_lstroke_def)
  have h4: "length [0x41, 0x01 :: byte] < 2 ^ 32"
    by simp
  have h5: "if event_type ex_lstroke_event = TPM2_EFI_VARIABLE_AUTHORITY
          then fst (efi_variable_authority_get_record ex_env ?parsed
                 (ex_lstroke @ ''-8be4df61-93ca-11d2-aa0d-00e098032b8c'') (ex_ctx None) w0)
               = Ptr ?fd
          else runtime_read_efi_variable ex_env (ex_lstroke @ ''-8be4df61-93ca-11d2-aa0d-00e098032b8c'')
               = Some ?fd"
    by (simp add: ex_lstroke_event_def ex_env_def ex_lstroke_def)
  show ?thesis
    using remarshal_name_length_mismatch [OF h1 h2 h3 h4, of "[0x07]" 1 w0
        "ex_lstroke @ ''-8be4df61-93ca-11d2-aa0d-00e098032b8c''" ex_lstroke_event "ex_ctx None" ?fd]
      ex_lstroke_full_name ex_lstroke_detect h5
    by simp
qed

text \<open>
  Claim C4 as stated fails in its second half: the rehash of that event does not return to
  its caller, who could go on with the next event of the log; it ends in \<open>fatal\<close>.
\<close>

theorem remarshal_fatal_counterexample:
  "event_type ex_lstroke_event \<noteq> TPM2_EFI_VARIABLE_AUTHORITY
   \<and> native_to_utf16le ex_env (variable_name (ex_parsed efi_global_guid ex_lstroke)) = Some [0x41, 0x01]
   \<and> length (variable_name (ex_parsed efi_global_guid ex_lstroke)) = 2
   \<and> fst (tpm_event_efi_variable_rehash ex_env ex_lstroke_event
            (ex_parsed efi_global_guid ex_lstroke) (ex_ctx None) w0)
       = Fatal ''Unable to re-marshal EFI variable for hashing\<newline>''"
proof -
  have "fst (tpm_event_efi_variable_rehash ex_env ex_lstroke_event
            (ex_parsed efi_global_guid ex_lstroke) (ex_ctx None) w0)
       = Fatal ''Unable to re-marshal EFI variable for hashing\<newline>''"
  proof (rule rehash_remarshal_fatal [where fd = "\<lparr>rpos = 0, bsize = 1, written = [0x07]\<rparr>"])
    show "fst (tpm_event_efi_variable_build_event ex_env (ex_parsed efi_global_guid ex_lstroke)
            raw_data raw_data_len w') = None" for raw_data raw_data_len w'
      by (rule ex_lstroke_build_event)
    show "fst (tpm_efi_variable_event_extract_full_varname ex_env
            (ex_parsed efi_global_guid ex_lstroke) w0)
          = Some (ex_lstroke @ ''-8be4df61-93ca-11d2-aa0d-00e098032b8c'')"
      by (rule ex_lstroke_full_name)
    show "fst (tpm_event_efi_variable_detect_hash_strategy ex_env ex_lstroke_event
            (ex_parsed efi_global_guid ex_lstroke) (algo (ex_ctx None)) w0) = HASH_STRATEGY_EVENT"
      by (rule ex_lstroke_detect)
    show "if event_type ex_lstroke_event = TPM2_EFI_VARIABLE_AUTHORITY
          then fst (efi_variable_authority_get_record ex_env (ex_parsed efi_global_guid ex_lstroke)
                 (ex_lstroke @ ''-8be4df61-93ca-11d2-aa0d-00e098032b8c'') (ex_ctx None) w0)
               = Ptr \<lparr>rpos = 0, bsize = 1, written = [0x07]\<rparr>
          else runtime_read_efi_variable ex_env (ex_lstroke @ ''-8be4df61-93ca-11d2-aa0d-00e098032b8c'')
               = Some \<lparr>rpos = 0, bsize = 1, written = [0x07]\<rparr>"
      by (simp add: ex_lstroke_event_def ex_env_def ex_lstroke_def)
  qed
  then show ?thesis
    using ex_lstroke_encode by (simp add: ex_lstroke_event_def ex_parsed_def ex_lstroke_def)
qed

text \<open>
  Claim C5, amended. Take a wire event in the layout of the table (GUID of 16 bytes, name
  length \<open>n\<close>, data length, name of \<open>2 * n\<close> bytes, payload; both lengths below
  \<open>2^32\<close>) whose name decodes to a native text of exactly \<open>n\<close> chars that encodes back
  to the name on the wire. Decoding the event succeeds, and marshaling the decoded event
  with its own payload succeeds and gives the wire bytes again.
\<close>

theorem parse_build_event_roundtrip:
  assumes "length guid = 16"
    and "length name_utf16 = 2 * n"
    and "n < 2 ^ 32"
    and "length payload < 2 ^ 32"
    and "utf16le_to_native env name_utf16 = Some text"
    and "length (c_str text) = n"
    and "native_to_utf16le env (c_str text) = Some name_utf16"
  shows "\<exists>parsed bp out.
           tpm_event_parse_efi_variable env (read_buffer (efi_variable_wire guid n name_utf16 payload))
             = Some (parsed, bp)
         \<and> tpm_event_efi_variable_build_event env parsed (data parsed) (length (data parsed)) w
             = (Some out, w)
         \<and> buffer_read_pointer out = efi_variable_wire guid n name_utf16 payload"
proof -
  let ?parsed = "\<lparr>variable_guid = guid, variable_name = c_str text, data = payload\<rparr>"
  let ?wire = "efi_variable_wire guid n name_utf16 payload"
  have p: "tpm_event_parse_efi_variable env (read_buffer ?wire)
      = Some (?parsed, \<lparr>rpos = length ?wire, bsize = length ?wire, written = ?wire\<rparr>)"
    using parse_wire [OF assms(1-5)]
    by (simp add: read_buffer_def efi_variable_wire_def)
  have b: "tpm_event_efi_variable_build_event env ?parsed (data ?parsed) (length (data ?parsed)) w
      = (Some \<lparr>rpos = 0, bsize = length ?wire, written = ?wire\<rparr>, w)"
    using marshal_wire [of ?parsed payload env name_utf16 w] assms
    by (simp add: efi_variable_wire_def)
  show ?thesis
    using p b by (simp add: buffer_read_pointer_def)
qed

text \<open>
  The variable \<open>db\<close> with a payload of three bytes.
\<close>

theorem parse_build_event_roundtrip_witness:
  "\<exists>parsed bp out.
      tpm_event_parse_efi_variable ex_env
          (read_buffer (efi_variable_wire ex_db_guid 2 [0x64, 0, 0x62, 0] [1, 2, 3]))
        = Some (parsed, bp)
    \<and> tpm_event_efi_variable_build_event ex_env parsed (data parsed) (length (data parsed)) w0
        = (Some out, w0)
    \<and> buffer_read_pointer out = efi_variable_wire ex_db_guid 2 [0x64, 0, 0x62, 0] [1, 2, 3]"
proof -
  have h1: "length ex_db_guid = 16"
    by (simp add: ex_db_guid_def)
  have h2: "length [0x64, 0, 0x62, 0 :: byte] = 2 * 2"
    by simp
  have h3: "(2::nat) < 2 ^ 32"
    by simp
  have h4: "length [1, 2, 3 :: byte] < 2 ^ 32"
    by simp
  have h5: "utf16le_to_native ex_env [0x64, 0, 0x62, 0] = Some ''db''"
    unfolding ex_env_def by code_simp
  have h6: "length (c_str ''db'') = 2"
    by (simp add: c_str_def)
  have h7: "native_to_utf16le ex_env (c_str ''db'') = Some [0x64, 0, 0x62, 0]"
    by (simp add: c_str_def ex_env_def)
  show ?thesis
    using parse_build_event_roundtrip [OF h1 h2 h3 h4 h5 h6 h7] .
qed

text \<open>
  Claim C5 as stated fails for the wire event of a variable named U+0141 (L with stroke),
  with native text in UTF-8: the event is decoded, the name has two chars for its one code
  unit, and marshaling the decoded event fails.
\<close>

theorem parse_build_event_counterexample:
  "map_option fst (tpm_event_parse_efi_variable ex_env
       (read_buffer (efi_variable_wire efi_global_guid 1 [0x41, 0x01] [1, 2, 3])))
     = Some (ex_parsed efi_global_guid ex_lstroke)
   \<and> fst (tpm_event_efi_variable_build_event ex_env (ex_parsed efi_global_guid ex_lstroke)
            (data (ex_parsed efi_global_guid ex_lstroke))
            (length (data (ex_parsed efi_global_guid ex_lstroke))) w0) = None"
proof -
  have "tpm_event_parse_efi_variable ex_env
       (read_buffer (efi_variable_wire efi_global_guid 1 [0x41, 0x01] [1, 2, 3]))
     = Some (\<lparr>variable_guid = efi_global_guid, variable_name = c_str ex_lstroke,
               data = [1, 2, 3]\<rparr>,
             \<lparr>rpos = length (efi_variable_wire efi_global_guid 1 [0x41, 0x01] [1, 2, 3]),
              bsize = length (efi_variable_wire efi_global_guid 1 [0x41, 0x01] [1, 2, 3]),
              written = efi_variable_wire efi_global_guid 1 [0x41, 0x01] [1, 2, 3]\<rparr>)"
    using parse_wire [of efi_global_guid "[0x41, 0x01]" 1 "[1, 2, 3]" ex_env ex_lstroke]
      ex_lstroke_decode
    by (simp add: read_buffer_def efi_variable_wire_def efi_global_guid_def)
  moreover have "c_str ex_lstroke = ex_lstroke"
    by (simp add: c_str_def ex_lstroke_def)
  ultimately show ?thesis
    using ex_lstroke_build_event by (simp add: ex_parsed_def)
qed

end
